theory Spec2Isabelle
  imports Complex_Main
begin

section \<open>Python values, exceptions and strings\<close>

text \<open>
  An exception raised by the Python code is a value of \<open>exn\<close>. \<open>Raised name\<close> stands for
  every exception class the code does not tell apart (ValueError, OSError, ...); only
  \<open>AttributeError\<close> is special, because \<open>hasattr\<close> swallows exactly that class.
  The outcome of evaluating an expression is \<open>exn + 'a\<close>, with \<open>Inl\<close> the raised exception.
\<close>

datatype exn = AttributeError | KeyError | IndexError | Raised string

text \<open>
  Strings are lists of characters. \<open>digits\<close> and \<open>idigits\<close> are the decimal digits of a
  natural number and of a non-negative integer, \<open>str_int\<close> is \<open>str(i)\<close>, \<open>zfill\<close> pads with
  zeros on the left. \<open>lower\<close> is \<open>str.lower()\<close> on the ASCII letters (all
  other characters are left as they are), \<open>replace_char\<close> is \<open>str.replace(old, new)\<close> for
  one-character \<open>old\<close> and \<open>new\<close>, and \<open>join\<close> is \<open>sep.join(xs)\<close>.
\<close>

definition lower_char :: "char \<Rightarrow> char" where
  "lower_char c =
     (case map_of (zip ''ABCDEFGHIJKLMNOPQRSTUVWXYZ'' ''abcdefghijklmnopqrstuvwxyz'') c of
        None \<Rightarrow> c
      | Some d \<Rightarrow> d)"

definition lower :: "string \<Rightarrow> string" where
  "lower s = map lower_char s"

definition replace_char :: "char \<Rightarrow> char \<Rightarrow> string \<Rightarrow> string" where
  "replace_char old new s = map (\<lambda>c. if c = old then new else c) s"

fun join :: "string \<Rightarrow> string list \<Rightarrow> string" where
  "join sep [] = []"
| "join sep [x] = x"
| "join sep (x # y # ys) = x @ sep @ join sep (y # ys)"

definition digit_char :: "nat \<Rightarrow> char" where
  "digit_char n = ''0123456789'' ! (n mod 10)"

fun digits :: "nat \<Rightarrow> string" where
  "digits n = (if n < 10 then [digit_char n] else digits (n div 10) @ [digit_char n])"

declare digits.simps [simp del]

function idigits :: "int \<Rightarrow> string" where
  "idigits i =
     (if i < 10 then [digit_char (nat i)]
      else idigits (i div 10) @ [digit_char (nat (i mod 10))])"
  by pat_completeness auto
termination
  by (relation "measure nat") auto

declare idigits.simps [simp del]

definition str_int :: "int \<Rightarrow> string" where
  "str_int i = (if i < 0 then ''-'' @ idigits (- i) else idigits i)"

definition zfill :: "nat \<Rightarrow> string \<Rightarrow> string" where
  "zfill k s = replicate (k - length s) (CHR ''0'') @ s"

definition is_digit :: "char \<Rightarrow> bool" where
  "is_digit c = (c \<in> set ''0123456789'')"

definition quote :: string where
  "quote = [CHR 0x27]"

section \<open>The clock: \<open>datetime\<close> values and their renderings\<close>

text \<open>
  A \<open>datetime\<close> carries the fields Python's \<open>datetime\<close> objects expose. \<open>valid_datetime\<close>
  states the ranges every such object satisfies (\<open>MINYEAR = 1\<close>, \<open>MAXYEAR = 9999\<close>).
  \<open>microseconds_of\<close> is the proleptic Gregorian ordinal arithmetic by which two
  datetimes are subtracted; \<open>total_seconds\<close> is \<open>(e - s).total_seconds()\<close>, kept as an
  exact rational rather than a float.
\<close>

record datetime =
  year :: nat
  month :: nat
  day :: nat
  hour :: nat
  minute :: nat
  second :: nat
  microsecond :: nat

definition is_leap :: "nat \<Rightarrow> bool" where
  "is_leap y = (y mod 4 = 0 \<and> (y mod 100 \<noteq> 0 \<or> y mod 400 = 0))"

definition days_in_month :: "nat \<Rightarrow> nat \<Rightarrow> nat" where
  "days_in_month y m =
     (if m = 2 then (if is_leap y then 29 else 28)
      else if m = 4 \<or> m = 6 \<or> m = 9 \<or> m = 11 then 30 else 31)"

definition valid_datetime :: "datetime \<Rightarrow> bool" where
  "valid_datetime dt =
     (1 \<le> year dt \<and> year dt \<le> 9999 \<and> 1 \<le> month dt \<and> month dt \<le> 12 \<and>
      1 \<le> day dt \<and> day dt \<le> days_in_month (year dt) (month dt) \<and>
      hour dt < 24 \<and> minute dt < 60 \<and> second dt < 60 \<and> microsecond dt < 1000000)"

definition days_before_year :: "nat \<Rightarrow> nat" where
  "days_before_year y = (y - 1) * 365 + (y - 1) div 4 - (y - 1) div 100 + (y - 1) div 400"

definition days_before_month :: "nat \<Rightarrow> nat \<Rightarrow> nat" where
  "days_before_month y m = sum_list (map (days_in_month y) [1..<m])"

definition ordinal :: "datetime \<Rightarrow> nat" where
  "ordinal dt = days_before_year (year dt) + days_before_month (year dt) (month dt) + day dt"

definition microseconds_of :: "datetime \<Rightarrow> int" where
  "microseconds_of dt =
     int ((((ordinal dt * 24 + hour dt) * 60 + minute dt) * 60 + second dt) * 1000000
          + microsecond dt)"

definition total_seconds :: "datetime \<Rightarrow> datetime \<Rightarrow> rat" where
  "total_seconds end_time start_time =
     of_int (microseconds_of end_time - microseconds_of start_time) / 1000000"

text \<open>\<open>strftime("%Y%m%d_%H%M%S")\<close>, \<open>strftime('%Y-%m-%d %H:%M:%S')\<close> and \<open>isoformat()\<close>.\<close>

definition strftime_compact :: "datetime \<Rightarrow> string" where
  "strftime_compact dt =
     zfill 4 (digits (year dt)) @ zfill 2 (digits (month dt)) @ zfill 2 (digits (day dt)) @
     ''_'' @
     zfill 2 (digits (hour dt)) @ zfill 2 (digits (minute dt)) @ zfill 2 (digits (second dt))"

definition strftime_human :: "datetime \<Rightarrow> string" where
  "strftime_human dt =
     zfill 4 (digits (year dt)) @ ''-'' @ zfill 2 (digits (month dt)) @ ''-'' @
     zfill 2 (digits (day dt)) @ '' '' @
     zfill 2 (digits (hour dt)) @ '':'' @ zfill 2 (digits (minute dt)) @ '':'' @
     zfill 2 (digits (second dt))"

definition isoformat :: "datetime \<Rightarrow> string" where
  "isoformat dt =
     zfill 4 (digits (year dt)) @ ''-'' @ zfill 2 (digits (month dt)) @ ''-'' @
     zfill 2 (digits (day dt)) @ ''T'' @
     zfill 2 (digits (hour dt)) @ '':'' @ zfill 2 (digits (minute dt)) @ '':'' @
     zfill 2 (digits (second dt)) @
     (if microsecond dt \<noteq> 0 then ''.'' @ zfill 6 (digits (microsecond dt)) else [])"

section \<open>The agent's result object\<close>

text \<open>
  The object returned by \<open>agent.run()\<close> is duck-typed; the code only probes it. It is
  modelled by what each probe yields: \<open>attr_text\<close>, \<open>attr_str\<close> and \<open>attr_messages\<close> are the
  outcomes of \<open>getattr(result, 'text')\<close>, \<open>getattr(result, '__str__')\<close> and
  \<open>getattr(result, 'messages')\<close> (\<open>Inl AttributeError\<close> when the attribute is absent,
  another \<open>Inl\<close> when a property raises), and \<open>str_conv\<close> is the outcome of \<open>str(result)\<close>.
  Attribute values, where present, are text, as the collaborator's contract says.
  Every class inherits \<open>__str__\<close> from \<open>object\<close>, so \<open>attr_str\<close> is \<open>Inr ()\<close> unless the
  class overrides attribute lookup; \<open>ordinary\<close> names that usual case.
\<close>

record message =
  content :: "exn + string"

record agent_result =
  attr_text :: "exn + string"
  attr_str :: "exn + unit"
  str_conv :: "exn + string"
  attr_messages :: "exn + message list"

definition ordinary :: "agent_result \<Rightarrow> bool" where
  "ordinary r = (attr_str r = Inr ())"

text \<open>
  \<open>hasattr(obj, name)\<close> calls \<open>getattr\<close> and turns an \<open>AttributeError\<close> into \<open>False\<close>; any
  other exception propagates.
\<close>

definition hasattr :: "exn + 'a \<Rightarrow> exn + bool" where
  "hasattr a =
     (case a of
        Inr _ \<Rightarrow> Inr True
      | Inl AttributeError \<Rightarrow> Inr False
      | Inl e \<Rightarrow> Inl e)"

definition fallback :: string where
  "fallback = ''Could not extract text from search results.''"

text \<open>
  The body of the \<open>try\<close> block: \<open>hasattr(result, 'messages') and result.messages\<close> guards
  \<open>result.messages[-1].content\<close>; an empty list is falsy.
\<close>

definition last_message_content :: "agent_result \<Rightarrow> exn + string" where
  "last_message_content r =
     (case hasattr (attr_messages r) of
        Inl e \<Rightarrow> Inl e
      | Inr False \<Rightarrow> Inr fallback
      | Inr True \<Rightarrow>
          (case attr_messages r of
             Inl e \<Rightarrow> Inl e
           | Inr ms \<Rightarrow>
               if ms \<noteq> [] then
                 (case attr_messages r of
                    Inl e \<Rightarrow> Inl e
                  | Inr ms' \<Rightarrow> (if ms' = [] then Inl IndexError else content (last ms')))
               else Inr fallback))"

text \<open>
  The \<open>if\<close>/\<open>elif\<close>/\<open>else\<close> chain shared by both variants. Only the \<open>else\<close> branch sits
  inside \<open>try\<close> ... \<open>except:\<close>.
\<close>

definition extract_text :: "agent_result \<Rightarrow> exn + string" where
  "extract_text r =
     (case hasattr (attr_text r) of
        Inl e \<Rightarrow> Inl e
      | Inr True \<Rightarrow> attr_text r
      | Inr False \<Rightarrow>
          (case hasattr (attr_str r) of
             Inl e \<Rightarrow> Inl e
           | Inr True \<Rightarrow> str_conv r
           | Inr False \<Rightarrow>
               (case last_message_content r of
                  Inl e \<Rightarrow> Inr fallback
                | Inr t \<Rightarrow> Inr t)))"

section \<open>Options\<close>

text \<open>
  The options dictionary, typed as the docstring documents its keys. A caller's dictionary
  may leave any key out (\<open>None\<close> in \<open>supplied_options\<close>); \<open>options=None\<close> is the absent
  dictionary. \<open>merge\<close> is \<open>{**default_options, **options}\<close>: a supplied key wins, a missing
  key takes the default.
\<close>

record options =
  depth :: int
  output_format :: string
  output_dir :: string
  max_results :: int
  focus_areas :: "string list"
  language :: string
  blog_style :: bool

record supplied_options =
  given_depth :: "int option"
  given_output_format :: "string option"
  given_output_dir :: "string option"
  given_max_results :: "int option"
  given_focus_areas :: "string list option"
  given_language :: "string option"
  given_blog_style :: "bool option"

definition default_options :: options where
  "default_options =
     \<lparr>depth = 2, output_format = ''markdown'', output_dir = ''.'', max_results = 10,
      focus_areas = [], language = ''english'', blog_style = False\<rparr>"

definition empty_options :: supplied_options where
  "empty_options =
     \<lparr>given_depth = None, given_output_format = None, given_output_dir = None,
      given_max_results = None, given_focus_areas = None, given_language = None,
      given_blog_style = None\<rparr>"

definition merge :: "options \<Rightarrow> supplied_options \<Rightarrow> options" where
  "merge d s =
     \<lparr>depth = (case given_depth s of None \<Rightarrow> depth d | Some v \<Rightarrow> v),
      output_format = (case given_output_format s of None \<Rightarrow> output_format d | Some v \<Rightarrow> v),
      output_dir = (case given_output_dir s of None \<Rightarrow> output_dir d | Some v \<Rightarrow> v),
      max_results = (case given_max_results s of None \<Rightarrow> max_results d | Some v \<Rightarrow> v),
      focus_areas = (case given_focus_areas s of None \<Rightarrow> focus_areas d | Some v \<Rightarrow> v),
      language = (case given_language s of None \<Rightarrow> language d | Some v \<Rightarrow> v),
      blog_style = (case given_blog_style s of None \<Rightarrow> blog_style d | Some v \<Rightarrow> v)\<rparr>"

definition resolve_options :: "supplied_options option \<Rightarrow> options" where
  "resolve_options options =
     merge default_options (case options of None \<Rightarrow> empty_options | Some s \<Rightarrow> s)"

section \<open>Task description\<close>

text \<open>
  The multi-keyword variant: \<open>depth_desc\<close> is the dictionary
  \<open>{1: "briefly", 2: "thoroughly", 3: "exhaustively"}\<close>, \<open>depth_level\<close> is
  \<open>min(max(options["depth"], 1), 3)\<close>, and \<open>depth_desc[depth_level]\<close> raises \<open>KeyError\<close> on a
  missing key.
\<close>

definition depth_desc :: "int \<rightharpoonup> string" where
  "depth_desc = [1 \<mapsto> ''briefly'', 2 \<mapsto> ''thoroughly'', 3 \<mapsto> ''exhaustively'']"

definition depth_level :: "options \<Rightarrow> int" where
  "depth_level opts = min (max (depth opts) 1) 3"

definition focus_str :: "options \<Rightarrow> string" where
  "focus_str opts =
     (if focus_areas opts \<noteq> []
      then '' Focus especially on: '' @ join '', '' (focus_areas opts) @ ''.''
      else [])"

definition build_task :: "string \<Rightarrow> options \<Rightarrow> exn + string" where
  "build_task keyword opts =
     (case depth_desc (depth_level opts) of
        None \<Rightarrow> Inl KeyError
      | Some adverb \<Rightarrow>
          Inr (''Search '' @ adverb @ '' for information about '' @ quote @ keyword @ quote @ ''.'' @
               '' Find detailed facts, comparisons, and recent developments.'' @
               '' Create a comprehensive summary with key points organized by subtopics.'' @
               '' Include up to '' @ str_int (max_results opts) @
               '' most relevant findings.'' @ focus_str opts))"

text \<open>The single-keyword variant: \<open>"thoroughly" if depth >= 2 else "briefly"\<close>.\<close>

definition simple_depth_desc :: "int \<Rightarrow> string" where
  "simple_depth_desc d = (if d \<ge> 2 then ''thoroughly'' else ''briefly'')"

definition simple_task :: "string \<Rightarrow> int \<Rightarrow> string" where
  "simple_task keywords d =
     ''Search '' @ simple_depth_desc d @ '' for information about '' @ quote @ keywords @ quote @
     ''. Find detailed facts, comparisons, and recent developments.'' @
     '' Create a comprehensive summary with key points organized by subtopics.''"

section \<open>Transformation prompt\<close>

text \<open>
  The triple-quoted f-string: every line carries the indentation of the source (sixteen
  spaces in the multi-keyword variant, twelve in the single-keyword one), the blank lines
  included, and the closing line is the indentation alone.
\<close>

definition blog_prompt :: "nat \<Rightarrow> string \<Rightarrow> string \<Rightarrow> string" where
  "blog_prompt indent language_str result_text =
     (let ind = replicate indent (CHR '' '') in
      ''\<newline>'' @
      ind @ ''Transform the following research summary into a well-written, engaging '' @
        language_str @ '' blog article.\<newline>'' @
      ind @ ''\<newline>'' @
      ind @ ''The article should:\<newline>'' @
      ind @ ''1. Have an engaging title and introduction\<newline>'' @
      ind @ ''2. Use a conversational, yet informative tone\<newline>'' @
      ind @ ''3. Include section headings where appropriate\<newline>'' @
      ind @ ''4. Maintain all the factual information from the original\<newline>'' @
      ind @ ''5. Conclude with some thoughtful insights\<newline>'' @
      ind @ ''6. Be written entirely in '' @ language_str @ ''\<newline>'' @
      ind @ ''\<newline>'' @
      ind @ ''Here is the research summary to transform:\<newline>'' @
      ind @ ''\<newline>'' @
      ind @ result_text @ ''\<newline>'' @
      ind)"

section \<open>File names and JSON data\<close>

definition safe_keyword :: "string \<Rightarrow> string" where
  "safe_keyword keyword =
     replace_char (CHR 0x5C) (CHR ''_'')
       (replace_char (CHR ''/'') (CHR ''_'') (replace_char (CHR '' '') (CHR ''_'') keyword))"

text \<open>\<open>os.path.join\<close> of two components (POSIX).\<close>

definition path_join :: "string \<Rightarrow> string \<Rightarrow> string" where
  "path_join a b =
     (if b \<noteq> [] \<and> hd b = CHR ''/'' then b
      else if a = [] \<or> last a = CHR ''/'' then a @ b
      else a @ ''/'' @ b)"

datatype json =
    JStr string
  | JInt int
  | JNum rat
  | JBool bool
  | JArr "json list"
  | JObj "(string \<times> json) list"

definition json_data :: "string \<Rightarrow> datetime \<Rightarrow> string \<Rightarrow> options \<Rightarrow> rat \<Rightarrow> json" where
  "json_data keyword now result_text opts duration =
     JObj [(''keyword'', JStr keyword),
           (''timestamp'', JStr (isoformat now)),
           (''summary'', JStr result_text),
           (''metadata'',
              JObj [(''depth'', JInt (depth opts)),
                    (''focus_areas'', JArr (map JStr (focus_areas opts))),
                    (''duration_seconds'', JNum duration),
                    (''language'', JStr (language opts)),
                    (''blog_style'', JBool (blog_style opts))])]"

text \<open>Reading a parsed JSON document: \<open>doc["key"]\<close>, with \<open>KeyError\<close> on a missing key.\<close>

fun json_get :: "json \<Rightarrow> string \<Rightarrow> exn + json" where
  "json_get (JObj kvs) k = (case map_of kvs k of None \<Rightarrow> Inl KeyError | Some v \<Rightarrow> Inr v)"
| "json_get _ k = Inl (Raised ''TypeError'')"

section \<open>The world and the external collaborators\<close>

text \<open>
  Effects are threaded through a \<open>world\<close>: how many times the clock was read, the tasks
  handed to the browser agent and the prompts sent to the LLM (in call order), the
  directories ensured, the files written and the lines printed. The \<open>env\<close> holds what the
  code cannot control: the clock's successive readings, the outcome of each
  \<open>agent.run()\<close> and \<open>llm.invoke(...).content\<close> (indexed by the number of earlier calls),
  whether \<open>os.makedirs\<close> or \<open>open\<close> raises on a path, and the text that
  \<open>json.dump(..., indent=2, ensure_ascii=False)\<close> produces for a document.
  A step returns its outcome together with the world it leaves behind, so effects made
  before an exception stay visible.
\<close>

record world =
  ticks :: nat
  agent_tasks :: "string list"
  llm_prompts :: "string list"
  dirs :: "string set"
  files :: "string \<rightharpoonup> string"
  stdout :: "string list"

record env =
  clock :: "nat \<Rightarrow> datetime"
  agent_run :: "nat \<Rightarrow> string \<Rightarrow> exn + agent_result"
  llm_invoke :: "nat \<Rightarrow> string \<Rightarrow> exn + string"
  makedirs_error :: "string \<Rightarrow> exn option"
  open_error :: "string \<Rightarrow> exn option"
  json_dumps :: "json \<Rightarrow> string"

record result_entry =
  output_file :: string
  duration_seconds :: rat

definition initial_world :: world where
  "initial_world =
     \<lparr>ticks = 0, agent_tasks = [], llm_prompts = [], dirs = {}, files = Map.empty, stdout = []\<rparr>"

definition now :: "env \<Rightarrow> world \<Rightarrow> datetime \<times> world" where
  "now e w = (clock e (ticks w), w\<lparr>ticks := Suc (ticks w)\<rparr>)"

definition print_line :: "string \<Rightarrow> world \<Rightarrow> world" where
  "print_line s w = w\<lparr>stdout := stdout w @ [s]\<rparr>"

definition run_agent :: "env \<Rightarrow> string \<Rightarrow> world \<Rightarrow> (exn + agent_result) \<times> world" where
  "run_agent e task w =
     (agent_run e (length (agent_tasks w)) task, w\<lparr>agent_tasks := agent_tasks w @ [task]\<rparr>)"

definition invoke_llm :: "env \<Rightarrow> string \<Rightarrow> world \<Rightarrow> (exn + string) \<times> world" where
  "invoke_llm e prompt w =
     (llm_invoke e (length (llm_prompts w)) prompt, w\<lparr>llm_prompts := llm_prompts w @ [prompt]\<rparr>)"

definition makedirs :: "env \<Rightarrow> string \<Rightarrow> world \<Rightarrow> (exn + unit) \<times> world" where
  "makedirs e d w =
     (case makedirs_error e d of
        Some x \<Rightarrow> (Inl x, w)
      | None \<Rightarrow> (Inr (), w\<lparr>dirs := insert d (dirs w)\<rparr>))"

text \<open>\<open>open(path, "w")\<close> truncates; \<open>f.write(s)\<close> appends to what the file holds.\<close>

definition open_w :: "env \<Rightarrow> string \<Rightarrow> world \<Rightarrow> (exn + unit) \<times> world" where
  "open_w e p w =
     (case open_error e p of
        Some x \<Rightarrow> (Inl x, w)
      | None \<Rightarrow> (Inr (), w\<lparr>files := (files w)(p \<mapsto> [])\<rparr>))"

definition f_write :: "string \<Rightarrow> string \<Rightarrow> world \<Rightarrow> world" where
  "f_write p s w =
     w\<lparr>files := (files w)(p \<mapsto> (case files w p of None \<Rightarrow> s | Some c \<Rightarrow> c @ s))\<rparr>"

section \<open>Transformation step\<close>

definition transform ::
  "env \<Rightarrow> nat \<Rightarrow> string \<Rightarrow> bool \<Rightarrow> string \<Rightarrow> world \<Rightarrow> (exn + string) \<times> world" where
  "transform e indent lang blog result_text w =
     (if blog \<or> lower lang \<noteq> ''english'' then
        let w = print_line (''Transforming results to '' @ lang @ '' blog-style article...'') w;
            language_str = lower lang
        in invoke_llm e (blog_prompt indent language_str result_text) w
      else (Inr result_text, w))"

section \<open>The multi-keyword variant\<close>

definition write_header :: "env \<Rightarrow> options \<Rightarrow> string \<Rightarrow> string \<Rightarrow> world \<Rightarrow> world" where
  "write_header e opts keyword path w =
     (if output_format opts = ''markdown'' then
        (if \<not> blog_style opts then
           let w = f_write path (''# Summary: '' @ keyword @ ''\<newline>\<newline>'') w;
               (t, w) = now e w;
               w = f_write path (''*Generated on: '' @ strftime_human t @ ''*\<newline>\<newline>'') w
           in if focus_areas opts \<noteq> []
              then f_write path
                     (''**Focus Areas:** '' @ join '', '' (focus_areas opts) @ ''\<newline>\<newline>'') w
              else w
         else w)
      else
        (if \<not> blog_style opts then
           let w = f_write path (''SUMMARY: '' @ keyword @ ''\<newline>'') w;
               (t, w) = now e w;
               w = f_write path (''Generated on: '' @ strftime_human t @ ''\<newline>'') w
           in if focus_areas opts \<noteq> []
              then f_write path
                     (''Focus Areas: '' @ join '', '' (focus_areas opts) @ ''\<newline>\<newline>'') w
              else w
         else w))"

definition file_name :: "string \<Rightarrow> datetime \<Rightarrow> string \<Rightarrow> string" where
  "file_name keyword t ext = safe_keyword keyword @ ''_'' @ strftime_compact t @ ''.'' @ ext"

definition save_summary ::
  "env \<Rightarrow> options \<Rightarrow> string \<Rightarrow> string \<Rightarrow> rat \<Rightarrow> world \<Rightarrow> (exn + string) \<times> world" where
  "save_summary e opts keyword result_text duration w =
     (let (t, w) = now e w in
      if output_format opts = ''json'' then
        let path = path_join (output_dir opts) (file_name keyword t ''json'');
            (r, w) = open_w e path w
        in (case r of
              Inl x \<Rightarrow> (Inl x, w)
            | Inr _ \<Rightarrow>
                let (t', w) = now e w;
                    w = f_write path
                          (json_dumps e (json_data keyword t' result_text opts duration)) w
                in (Inr path, w))
      else
        let ext = (if output_format opts = ''markdown'' then ''md'' else ''txt'');
            path = path_join (output_dir opts) (file_name keyword t ext);
            (r, w) = open_w e path w
        in (case r of
              Inl x \<Rightarrow> (Inl x, w)
            | Inr _ \<Rightarrow>
                let w = write_header e opts keyword path w;
                    w = f_write path result_text w
                in (Inr path, w)))"

text \<open>One iteration of the loop over the keywords.\<close>

definition process_keyword ::
  "env \<Rightarrow> options \<Rightarrow> string \<Rightarrow> world \<Rightarrow> (exn + result_entry) \<times> world" where
  "process_keyword e opts keyword w =
     (case build_task keyword opts of
        Inl x \<Rightarrow> (Inl x, w)
      | Inr task \<Rightarrow>
          let w = print_line (''Starting deep search for: '' @ keyword) w;
              w = print_line ''This may take a few minutes depending on search depth...'' w;
              (start_time, w) = now e w;
              (r, w) = run_agent e task w
          in (case r of
                Inl x \<Rightarrow> (Inl x, w)
              | Inr result \<Rightarrow>
                  let (end_time, w) = now e w;
                      duration = total_seconds end_time start_time
                  in (case extract_text result of
                        Inl x \<Rightarrow> (Inl x, w)
                      | Inr result_text \<Rightarrow>
                          let (r, w) = transform e 16 (language opts) (blog_style opts)
                                         result_text w
                          in (case r of
                                Inl x \<Rightarrow> (Inl x, w)
                              | Inr result_text \<Rightarrow>
                                  let (r, w) = makedirs e (output_dir opts) w
                                  in (case r of
                                        Inl x \<Rightarrow> (Inl x, w)
                                      | Inr _ \<Rightarrow>
                                          let (r, w) = save_summary e opts keyword
                                                         result_text duration w
                                          in (case r of
                                                Inl x \<Rightarrow> (Inl x, w)
                                              | Inr path \<Rightarrow>
                                                  let w = print_line
                                                            (''Summary for '' @ quote @ keyword @
                                                             quote @ '' saved to: '' @ path) w
                                                  in (Inr \<lparr>output_file = path,
                                                           duration_seconds = duration\<rparr>,
                                                      w)))))))"

fun process_keywords ::
  "env \<Rightarrow> options \<Rightarrow> string list \<Rightarrow> (string \<rightharpoonup> result_entry) \<Rightarrow> world \<Rightarrow>
     (exn + (string \<rightharpoonup> result_entry)) \<times> world" where
  "process_keywords e opts [] results w = (Inr results, w)"
| "process_keywords e opts (keyword # rest) results w =
     (case process_keyword e opts keyword w of
        (Inl x, w') \<Rightarrow> (Inl x, w')
      | (Inr entry, w') \<Rightarrow> process_keywords e opts rest (results(keyword \<mapsto> entry)) w')"

text \<open>\<open>keywords\<close> is a single string or a list of strings.\<close>

datatype keywords_arg = One string | Many "string list"

definition search_and_summarize ::
  "env \<Rightarrow> keywords_arg \<Rightarrow> supplied_options option \<Rightarrow> world \<Rightarrow>
     (exn + (string \<rightharpoonup> result_entry)) \<times> world" where
  "search_and_summarize e keywords options w =
     (let opts = resolve_options options;
          ks = (case keywords of One k \<Rightarrow> [k] | Many ks \<Rightarrow> ks)
      in process_keywords e opts ks Map.empty w)"

section \<open>The single-keyword variant\<close>

text \<open>
  \<open>DeepSearchAgent.search_and_summarize(keywords, depth, output_file, language,
  blog_style)\<close>; \<open>not output_file\<close> holds for \<open>None\<close> and for the empty string.
\<close>

definition simple_search_and_summarize ::
  "env \<Rightarrow> string \<Rightarrow> int \<Rightarrow> string option \<Rightarrow> string \<Rightarrow> bool \<Rightarrow> world \<Rightarrow>
     (exn + string) \<times> world" where
  "simple_search_and_summarize e keywords d out_file lang blog w =
     (let task = simple_task keywords d;
          w = print_line (''Starting deep search for: '' @ keywords) w;
          w = print_line ''This may take a few minutes depending on search depth...'' w;
          (r, w) = run_agent e task w
      in (case r of
            Inl x \<Rightarrow> (Inl x, w)
          | Inr result \<Rightarrow>
              (case extract_text result of
                 Inl x \<Rightarrow> (Inl x, w)
               | Inr result_text \<Rightarrow>
                   let (r, w) = transform e 12 lang blog result_text w
                   in (case r of
                         Inl x \<Rightarrow> (Inl x, w)
                       | Inr result_text \<Rightarrow>
                           let (path, w) =
                                 (case out_file of
                                    None \<Rightarrow>
                                      let (t, w) = now e w in (file_name keywords t ''md'', w)
                                  | Some p \<Rightarrow>
                                      if p = []
                                      then let (t, w) = now e w
                                           in (file_name keywords t ''md'', w)
                                      else (p, w));
                               (r, w) = open_w e path w
                           in (case r of
                                 Inl x \<Rightarrow> (Inl x, w)
                               | Inr _ \<Rightarrow>
                                   let w = (if \<not> blog then
                                              let w = f_write path
                                                        (''# Summary: '' @ keywords @
                                                         ''\<newline>\<newline>'') w;
                                                  (t, w) = now e w
                                              in f_write path
                                                   (''*Generated on: '' @ strftime_human t @
                                                    ''*\<newline>\<newline>'') w
                                            else w);
                                       w = f_write path result_text w;
                                       w = print_line (''Summary saved to: '' @ path) w
                                   in (Inr path, w))))))"

section \<open>Example objects\<close>

text \<open>
  Result objects of the shapes the collaborator may return: one with a \<open>text\<close> attribute;
  an ordinary object with only a message list; one whose class hides \<open>__str__\<close> and has
  only a message list; one that hides everything and raises when \<open>messages\<close> is probed;
  an ordinary object whose \<open>__str__\<close> raises; and one whose \<open>text\<close> property raises.
\<close>

definition text_result :: agent_result where
  "text_result =
     \<lparr>attr_text = Inr ''final answer'', attr_str = Inr (),
      str_conv = Inr ''AgentHistoryList(...)'',
      attr_messages = Inr [\<lparr>content = Inr ''last message''\<rparr>]\<rparr>"

definition messages_only_result :: agent_result where
  "messages_only_result =
     \<lparr>attr_text = Inl AttributeError, attr_str = Inr (),
      str_conv = Inr ''AgentHistoryList(...)'',
      attr_messages = Inr [\<lparr>content = Inr ''first message''\<rparr>,
                           \<lparr>content = Inr ''last message''\<rparr>]\<rparr>"

definition bare_messages_result :: agent_result where
  "bare_messages_result =
     \<lparr>attr_text = Inl AttributeError, attr_str = Inl AttributeError,
      str_conv = Inr ''AgentHistoryList(...)'',
      attr_messages = Inr [\<lparr>content = Inr ''first message''\<rparr>,
                           \<lparr>content = Inr ''last message''\<rparr>]\<rparr>"

definition opaque_result :: agent_result where
  "opaque_result =
     \<lparr>attr_text = Inl AttributeError, attr_str = Inl AttributeError,
      str_conv = Inr ''AgentHistoryList(...)'',
      attr_messages = Inl (Raised ''RuntimeError'')\<rparr>"

definition broken_str_result :: agent_result where
  "broken_str_result =
     \<lparr>attr_text = Inl AttributeError, attr_str = Inr (),
      str_conv = Inl (Raised ''RuntimeError''),
      attr_messages = Inl AttributeError\<rparr>"

definition broken_text_result :: agent_result where
  "broken_text_result =
     \<lparr>attr_text = Inl (Raised ''RuntimeError''), attr_str = Inr (),
      str_conv = Inr ''AgentHistoryList(...)'',
      attr_messages = Inl AttributeError\<rparr>"

section \<open>Reading a JSON document\<close>

text \<open>\<open>doc["k1"]["k2"]...\<close>: the value found by following a path of keys.\<close>

fun json_get_in :: "json \<Rightarrow> string list \<Rightarrow> exn + json" where
  "json_get_in doc [] = Inr doc"
| "json_get_in doc (k # ks) =
     (case json_get doc k of Inl x \<Rightarrow> Inl x | Inr v \<Rightarrow> json_get_in v ks)"

section \<open>A concrete JSON writer and reader\<close>

text \<open>
  The \<open>json\<close> module is a library, so the model takes the writer as the parameter
  \<open>json_dumps\<close> of the environment. To run the model on concrete inputs, \<open>render\<close> is such a
  writer, laid out as \<open>json.dump(..., indent=2, ensure_ascii=False)\<close> lays a document out
  (two spaces per level, only the quote, the backslash and the control characters
  escaped), and \<open>json_loads\<close> is a reader for that syntax (numbers with an optional
  fraction and exponent; a number with either is a float). The reader's fuel is the
  length of its input.

  A float is kept as an exact rational. \<open>render_float\<close> is \<open>repr\<close> on the floats the code
  writes, durations of a whole number of microseconds below \<open>10\<^sup>1\<^sup>5\<close>: the shortest
  decimal, which for these values is the exact one, in fixed notation from \<open>0.0001\<close> up and
  for zero, and in scientific notation (\<open>5e-05\<close>, \<open>1.2e-05\<close>, \<open>3e-06\<close>) below.
\<close>

definition hex_digit :: "nat \<Rightarrow> char" where
  "hex_digit n = ''0123456789abcdef'' ! (n mod 16)"

definition escape_char :: "char \<Rightarrow> string" where
  "escape_char c =
     (if c = CHR 0x22 then [CHR 0x5C, CHR 0x22]
      else if c = CHR 0x5C then [CHR 0x5C, CHR 0x5C]
      else if c = CHR 0x0A then [CHR 0x5C, CHR ''n'']
      else if c = CHR 0x0D then [CHR 0x5C, CHR ''r'']
      else if c = CHR 0x09 then [CHR 0x5C, CHR ''t'']
      else if c = CHR 0x08 then [CHR 0x5C, CHR ''b'']
      else if c = CHR 0x0C then [CHR 0x5C, CHR ''f'']
      else if (of_char c :: nat) < 32
        then [CHR 0x5C, CHR ''u'', CHR ''0'', CHR ''0'',
              hex_digit (of_char c div 16), hex_digit (of_char c)]
      else [c])"

definition render_string :: "string \<Rightarrow> string" where
  "render_string s = [CHR 0x22] @ concat (map escape_char s) @ [CHR 0x22]"

fun strip_zeros :: "string \<Rightarrow> string" where
  "strip_zeros s = (if length s > 1 \<and> last s = CHR ''0'' then strip_zeros (butlast s) else s)"

declare strip_zeros.simps [simp del]

definition render_float :: "rat \<Rightarrow> string" where
  "render_float r =
     (let m = \<lfloor>r * 1000000\<rfloor>;
          a = \<bar>m\<bar>;
          sign = (if m < 0 then ''-'' else [])
      in if 0 < a \<and> a < 10 then sign @ idigits a @ ''e-06''
         else if 10 \<le> a \<and> a < 100 then
           sign @ idigits (a div 10) @
           (if a mod 10 = 0 then [] else ''.'' @ idigits (a mod 10)) @ ''e-05''
         else sign @ idigits (a div 1000000) @ ''.'' @
              strip_zeros (zfill 6 (idigits (a mod 1000000))))"

definition indent_nl :: "nat \<Rightarrow> string" where
  "indent_nl n = ''\<newline>'' @ replicate (2 * n) (CHR '' '')"

fun render :: "nat \<Rightarrow> json \<Rightarrow> string" where
  "render n (JStr s) = render_string s"
| "render n (JInt i) = str_int i"
| "render n (JNum r) = render_float r"
| "render n (JBool b) = (if b then ''true'' else ''false'')"
| "render n (JArr xs) =
     (if xs = [] then ''[]''
      else ''['' @ indent_nl (Suc n) @
           join ('','' @ indent_nl (Suc n)) (map (render (Suc n)) xs) @
           indent_nl n @ '']'')"
| "render n (JObj kvs) =
     (if kvs = [] then ''{}''
      else ''{'' @ indent_nl (Suc n) @
           join ('','' @ indent_nl (Suc n))
             (map (\<lambda>kv. render_string (fst kv) @ '': '' @ render (Suc n) (snd kv)) kvs) @
           indent_nl n @ ''}'')"

definition is_ws :: "char \<Rightarrow> bool" where
  "is_ws c = (c = CHR '' '' \<or> c = CHR 0x0A \<or> c = CHR 0x0D \<or> c = CHR 0x09)"

definition skip_ws :: "string \<Rightarrow> string" where
  "skip_ws cs = dropWhile is_ws cs"

definition hex_val :: "char \<Rightarrow> nat option" where
  "hex_val c = map_of (zip ''0123456789abcdef'' [0 ..< 16]) c"

definition unescape :: "char \<Rightarrow> char option" where
  "unescape d =
     map_of [(CHR 0x22, CHR 0x22), (CHR 0x5C, CHR 0x5C), (CHR ''/'', CHR ''/''),
             (CHR ''n'', CHR 0x0A), (CHR ''r'', CHR 0x0D), (CHR ''t'', CHR 0x09),
             (CHR ''b'', CHR 0x08), (CHR ''f'', CHR 0x0C)] d"

fun parse_chars :: "string \<Rightarrow> (string \<times> string) option" where
  "parse_chars [] = None"
| "parse_chars (c # cs) =
     (if c = CHR 0x22 then Some ([], cs)
      else if c = CHR 0x5C then
        (case cs of
           [] \<Rightarrow> None
         | d # ds \<Rightarrow>
             if d = CHR ''u'' then
               (case ds of
                  a # b # h # l # rest \<Rightarrow>
                    (case (hex_val h, hex_val l) of
                       (Some x, Some y) \<Rightarrow>
                         if a = CHR ''0'' \<and> b = CHR ''0''
                         then map_option (\<lambda>(s, r). (char_of (16 * x + y) # s, r))
                                (parse_chars rest)
                         else None
                     | _ \<Rightarrow> None)
                | _ \<Rightarrow> None)
             else
               (case unescape d of
                  None \<Rightarrow> None
                | Some ch \<Rightarrow> map_option (\<lambda>(s, r). (ch # s, r)) (parse_chars ds)))
      else map_option (\<lambda>(s, r). (c # s, r)) (parse_chars cs))"

definition nat_of_digits :: "string \<Rightarrow> nat" where
  "nat_of_digits ds = foldl (\<lambda>a c. 10 * a + (of_char c - 48)) 0 ds"

text \<open>
  A number token: an optional minus sign, digits, an optional fraction, an optional
  exponent. Without fraction and exponent it is an integer, otherwise a float.
\<close>

definition take_sign :: "string \<Rightarrow> bool \<times> string" where
  "take_sign cs = (if cs \<noteq> [] \<and> hd cs = CHR ''-'' then (True, tl cs) else (False, cs))"

definition take_digits :: "string \<Rightarrow> string \<times> string" where
  "take_digits cs = (takeWhile is_digit cs, dropWhile is_digit cs)"

definition take_frac :: "string \<Rightarrow> string option \<times> string" where
  "take_frac cs =
     (if cs \<noteq> [] \<and> hd cs = CHR ''.''
      then (Some (fst (take_digits (tl cs))), snd (take_digits (tl cs)))
      else (None, cs))"

definition take_exp :: "string \<Rightarrow> (bool \<times> string) option \<times> string" where
  "take_exp cs =
     (if cs \<noteq> [] \<and> (hd cs = CHR ''e'' \<or> hd cs = CHR ''E'') then
        (if tl cs \<noteq> [] \<and> hd (tl cs) = CHR ''-''
         then (Some (True, fst (take_digits (tl (tl cs)))), snd (take_digits (tl (tl cs))))
         else if tl cs \<noteq> [] \<and> hd (tl cs) = CHR ''+''
         then (Some (False, fst (take_digits (tl (tl cs)))), snd (take_digits (tl (tl cs))))
         else (Some (False, fst (take_digits (tl cs))), snd (take_digits (tl cs))))
      else (None, cs))"

definition number_value :: "string \<Rightarrow> string option \<Rightarrow> (bool \<times> string) option \<Rightarrow> rat" where
  "number_value ip fr ex =
     (let mant = of_nat (nat_of_digits ip) +
                 (case fr of None \<Rightarrow> 0
                  | Some fp \<Rightarrow> of_nat (nat_of_digits fp) / 10 ^ length fp)
      in case ex of
           None \<Rightarrow> mant
         | Some (eneg, ep) \<Rightarrow>
             if eneg then mant / 10 ^ nat_of_digits ep else mant * 10 ^ nat_of_digits ep)"

definition parse_number :: "string \<Rightarrow> (json \<times> string) option" where
  "parse_number cs =
     (case take_sign cs of (neg, c1) \<Rightarrow>
      case take_digits c1 of (ip, c2) \<Rightarrow>
      case take_frac c2 of (fr, c3) \<Rightarrow>
      case take_exp c3 of (ex, c4) \<Rightarrow>
        if ip = [] \<or> fr = Some [] \<or> ex = Some (True, []) \<or> ex = Some (False, []) then None
        else if fr = None \<and> ex = None
        then Some (JInt (if neg then - int (nat_of_digits ip) else int (nat_of_digits ip)), c4)
        else Some (JNum (if neg then - number_value ip fr ex else number_value ip fr ex),
                   c4))"

fun parse_value :: "nat \<Rightarrow> string \<Rightarrow> (json \<times> string) option"
and parse_elems :: "nat \<Rightarrow> string \<Rightarrow> (json list \<times> string) option"
and parse_members :: "nat \<Rightarrow> string \<Rightarrow> ((string \<times> json) list \<times> string) option" where
  "parse_value 0 cs = None"
| "parse_value (Suc n) cs =
     (case skip_ws cs of
        [] \<Rightarrow> None
      | c # r \<Rightarrow>
          if c = CHR 0x22 then map_option (\<lambda>(s, r'). (JStr s, r')) (parse_chars r)
          else if c = CHR ''['' then
            (if skip_ws r \<noteq> [] \<and> hd (skip_ws r) = CHR '']''
             then Some (JArr [], tl (skip_ws r))
             else map_option (\<lambda>(vs, r'). (JArr vs, r')) (parse_elems n r))
          else if c = CHR ''{'' then
            (if skip_ws r \<noteq> [] \<and> hd (skip_ws r) = CHR ''}''
             then Some (JObj [], tl (skip_ws r))
             else map_option (\<lambda>(kvs, r'). (JObj kvs, r')) (parse_members n r))
          else if take 4 (c # r) = ''true'' then Some (JBool True, drop 4 (c # r))
          else if take 5 (c # r) = ''false'' then Some (JBool False, drop 5 (c # r))
          else parse_number (c # r))"
| "parse_elems 0 cs = None"
| "parse_elems (Suc n) cs =
     (case parse_value n cs of
        None \<Rightarrow> None
      | Some (v, r) \<Rightarrow>
          (case skip_ws r of
             [] \<Rightarrow> None
           | c # r' \<Rightarrow>
               if c = CHR '','' then map_option (\<lambda>(vs, r''). (v # vs, r'')) (parse_elems n r')
               else if c = CHR '']'' then Some ([v], r')
               else None))"
| "parse_members 0 cs = None"
| "parse_members (Suc n) cs =
     (case skip_ws cs of
        [] \<Rightarrow> None
      | c # r \<Rightarrow>
          if c \<noteq> CHR 0x22 then None
          else
            (case parse_chars r of
               None \<Rightarrow> None
             | Some (k, r1) \<Rightarrow>
                 (case skip_ws r1 of
                    [] \<Rightarrow> None
                  | c1 # r2 \<Rightarrow>
                      if c1 \<noteq> CHR '':'' then None
                      else
                        (case parse_value n r2 of
                           None \<Rightarrow> None
                         | Some (v, r3) \<Rightarrow>
                             (case skip_ws r3 of
                                [] \<Rightarrow> None
                              | c3 # r4 \<Rightarrow>
                                  if c3 = CHR '','' then
                                    map_option (\<lambda>(kvs, r5). ((k, v) # kvs, r5))
                                      (parse_members n r4)
                                  else if c3 = CHR ''}'' then Some ([(k, v)], r4)
                                  else None)))))"


section \<open>An example environment\<close>

text \<open>
  A clock that advances one second per reading (and stays at second 59), an agent that
  returns \<open>text_result\<close>, an LLM that returns a fixed article, a file system that never
  fails, and \<open>render\<close> as the JSON writer.
\<close>

definition demo_clock :: "nat \<Rightarrow> datetime" where
  "demo_clock i =
     \<lparr>year = 2024, month = 5, day = 17, hour = 10, minute = 30, second = min i 59,
      microsecond = 0\<rparr>"

definition demo_env :: env where
  "demo_env =
     \<lparr>clock = demo_clock,
      agent_run = (\<lambda>n task. Inr text_result),
      llm_invoke = (\<lambda>n prompt. Inr ''# A blog article''),
      makedirs_error = (\<lambda>d. None),
      open_error = (\<lambda>p. None),
      json_dumps = render 0\<rparr>"

text \<open>Options a caller may pass: a depth outside 1..3 together with JSON output.\<close>

definition out_of_range_options :: supplied_options where
  "out_of_range_options =
     empty_options\<lparr>given_depth := Some 7, given_output_format := Some ''json''\<rparr>"



text \<open>A keyword with a space, a slash and a backslash.\<close>

definition awkward_keyword :: string where
  "awkward_keyword = ''a b/c'' @ [CHR 0x5C] @ ''d''"

text \<open>
  A wall clock that steps back between its first and its second reading, as naive local
  time does when daylight saving time ends (01:59:59, then 01:00:01), in an environment
  that is otherwise \<open>demo_env\<close>.
\<close>

definition dst_clock :: "nat \<Rightarrow> datetime" where
  "dst_clock i =
     \<lparr>year = 2024, month = 11, day = 3, hour = 1,
      minute = (if i = 0 then 59 else 0), second = (if i = 0 then 59 else min i 59),
      microsecond = 0\<rparr>"

definition dst_env :: env where
  "dst_env = demo_env\<lparr>clock := dst_clock\<rparr>"

text \<open>\<open>results[k]["duration_seconds"]\<close> of a returned mapping.\<close>

definition duration_of :: "exn + (string \<rightharpoonup> result_entry) \<Rightarrow> string \<Rightarrow> rat option" where
  "duration_of r k =
     (case r of Inl x \<Rightarrow> None | Inr results \<Rightarrow> map_option duration_seconds (results k))"

text \<open>The file extension the two branches of the writer choose for an output format.\<close>

abbreviation extension :: "string \<Rightarrow> string" where
  "extension fmt \<equiv>
     (if fmt = ''json'' then ''json'' else if fmt = ''markdown'' then ''md'' else ''txt'')"

section \<open>Result-text extraction\<close>

text \<open>
  Claim C1, as the code has it. The extracted text is the \<open>text\<close> attribute when the
  object has one. Without \<open>text\<close>, an object that has \<open>__str__\<close> (every ordinary object)
  yields \<open>str(result)\<close>, whatever its message list holds. The content of the last message
  is extracted only from an object that has neither \<open>text\<close> nor \<open>__str__\<close> and a non-empty
  message list; such an object yields the fallback string when \<open>messages\<close> is missing,
  empty, or raises on access.
\<close>

theorem extract_text_shapes:
  "(attr_text r = Inr t \<longrightarrow> extract_text r = Inr t) \<and>
   (attr_text r = Inl AttributeError \<and> attr_str r = Inr () \<longrightarrow> extract_text r = str_conv r) \<and>
   (attr_text r = Inl AttributeError \<and> attr_str r = Inl AttributeError \<and>
    attr_messages r = Inr ms \<and> ms \<noteq> [] \<and> content (last ms) = Inr t \<longrightarrow>
      extract_text r = Inr t) \<and>
   (attr_text r = Inl AttributeError \<and> attr_str r = Inl AttributeError \<and>
    (attr_messages r = Inl e \<or> attr_messages r = Inr [] \<or>
     (attr_messages r = Inr ms \<and> ms \<noteq> [] \<and> content (last ms) = Inl e)) \<longrightarrow>
      extract_text r = Inr fallback)"
  by (auto simp: extract_text_def last_message_content_def hasattr_def
           split: sum.splits exn.splits bool.splits)

theorem extract_text_shapes_witness:
  "(attr_text text_result = Inr ''final answer'' \<and>
    extract_text text_result = Inr ''final answer'') \<and>
   (attr_text messages_only_result = Inl AttributeError \<and>
    attr_str messages_only_result = Inr () \<and>
    extract_text messages_only_result = Inr ''AgentHistoryList(...)'') \<and>
   (attr_text bare_messages_result = Inl AttributeError \<and>
    attr_str bare_messages_result = Inl AttributeError \<and>
    extract_text bare_messages_result = Inr ''last message'') \<and>
   (attr_text opaque_result = Inl AttributeError \<and>
    attr_str opaque_result = Inl AttributeError \<and>
    attr_messages opaque_result = Inl (Raised ''RuntimeError'') \<and>
    extract_text opaque_result = Inr fallback)"
  using extract_text_shapes [of text_result "''final answer''"]
        extract_text_shapes [of messages_only_result]
        extract_text_shapes [of bare_messages_result "''last message''"
                                "[\<lparr>content = Inr ''first message''\<rparr>,
                                  \<lparr>content = Inr ''last message''\<rparr>]"]
        extract_text_shapes [of opaque_result _ _ "Raised ''RuntimeError''"]
  by (simp add: text_result_def messages_only_result_def bare_messages_result_def
                opaque_result_def)

text \<open>
  The claim's second case fails on an ordinary object that exposes only a message list:
  the \<open>__str__\<close> branch is taken first, and the message content is never read.
\<close>

theorem messages_only_counterexample:
  "ordinary messages_only_result \<and>
   attr_text messages_only_result = Inl AttributeError \<and>
   attr_messages messages_only_result =
     Inr [\<lparr>content = Inr ''first message''\<rparr>, \<lparr>content = Inr ''last message''\<rparr>] \<and>
   extract_text messages_only_result = Inr ''AgentHistoryList(...)'' \<and>
   extract_text messages_only_result \<noteq> Inr ''last message''"
  by (simp add: messages_only_result_def extract_text_def hasattr_def ordinary_def)

text \<open>
  Claim C2, as the code has it. Only the last-message branch is guarded: an object with
  neither \<open>text\<close> nor \<open>__str__\<close> always yields a text, the fallback whenever reading the
  messages raises. An exception leaves the extraction exactly when probing \<open>text\<close> or
  \<open>__str__\<close> raises something other than \<open>AttributeError\<close>, or when \<open>str(result)\<close> raises.
\<close>

theorem extract_text_guard:
  "(attr_text r = Inl AttributeError \<and> attr_str r = Inl AttributeError \<longrightarrow>
      (\<exists>t. extract_text r = Inr t) \<and>
      (\<forall>x. last_message_content r = Inl x \<longrightarrow> extract_text r = Inr fallback)) \<and>
   (extract_text r = Inl e \<longleftrightarrow>
      (attr_text r = Inl e \<and> e \<noteq> AttributeError) \<or>
      (attr_text r = Inl AttributeError \<and>
       ((attr_str r = Inl e \<and> e \<noteq> AttributeError) \<or>
        (attr_str r = Inr () \<and> str_conv r = Inl e))))"
  by (auto simp: extract_text_def hasattr_def split: sum.splits exn.splits bool.splits)

theorem extract_text_guard_witness:
  "(attr_text opaque_result = Inl AttributeError \<and>
    attr_str opaque_result = Inl AttributeError \<and>
    last_message_content opaque_result = Inl (Raised ''RuntimeError'') \<and>
    extract_text opaque_result = Inr fallback) \<and>
   (attr_text broken_text_result = Inl (Raised ''RuntimeError'') \<and>
    extract_text broken_text_result = Inl (Raised ''RuntimeError''))"
  using extract_text_guard [of opaque_result "Raised ''RuntimeError''"]
        extract_text_guard [of broken_text_result "Raised ''RuntimeError''"]
  by (simp add: opaque_result_def broken_text_result_def last_message_content_def hasattr_def)

text \<open>
  The claim fails on an ordinary object whose \<open>__str__\<close> raises: \<open>str(result)\<close> is called
  outside the \<open>try\<close> block and its exception reaches the caller.
\<close>

theorem str_raises_counterexample:
  "ordinary broken_str_result \<and>
   extract_text broken_str_result = Inl (Raised ''RuntimeError'') \<and>
   extract_text broken_str_result \<noteq> Inr fallback"
  by (simp add: broken_str_result_def extract_text_def hasattr_def ordinary_def)

section \<open>Decimal digits and timestamps\<close>

lemma digit_char_is_digit: "is_digit (digit_char n)"
  unfolding is_digit_def digit_char_def
  by (rule nth_mem) simp

lemma digits_all_digits: "c \<in> set (digits n) \<Longrightarrow> is_digit c"
proof (induction n rule: digits.induct)
  case (1 n)
  show ?case
  proof (cases "n < 10")
    case True
    with 1(2) show ?thesis by (subst (asm) digits.simps) (simp add: digit_char_is_digit)
  next
    case False
    with 1 show ?thesis by (subst (asm) (2) digits.simps) (auto simp add: digit_char_is_digit)
  qed
qed

lemma length_digits_1: "n < 10 \<Longrightarrow> length (digits n) = 1"
  by (subst digits.simps) simp

lemma length_digits_2: "n < 100 \<Longrightarrow> length (digits n) \<le> 2"
proof -
  assume a: "n < 100"
  then have "n div 10 < 10" by simp
  then have "length (digits (n div 10)) = 1" by (rule length_digits_1)
  then show ?thesis by (subst digits.simps) simp
qed

lemma length_digits_3: "n < 1000 \<Longrightarrow> length (digits n) \<le> 3"
proof -
  assume a: "n < 1000"
  then have "n div 10 < 100" by simp
  then have "length (digits (n div 10)) \<le> 2" by (rule length_digits_2)
  then show ?thesis by (subst digits.simps) simp
qed

lemma length_digits_4: "n < 10000 \<Longrightarrow> length (digits n) \<le> 4"
proof -
  assume a: "n < 10000"
  then have "n div 10 < 1000" by simp
  then have "length (digits (n div 10)) \<le> 3" by (rule length_digits_3)
  then show ?thesis by (subst digits.simps) simp
qed

lemma length_zfill: "length s \<le> k \<Longrightarrow> length (zfill k s) = k"
  by (simp add: zfill_def)

lemma zfill_digits_all_digits: "c \<in> set (zfill k (digits n)) \<Longrightarrow> is_digit c"
  using digits_all_digits [of c n] by (auto simp: zfill_def is_digit_def)

lemma days_in_month_le: "days_in_month y m \<le> 31"
  by (simp add: days_in_month_def)

section \<open>Effects of the steps\<close>

lemma build_task_total:
  "build_task k opts =
     Inr (''Search '' @
          (if depth opts \<le> 1 then ''briefly''
           else if depth opts = 2 then ''thoroughly'' else ''exhaustively'') @
          '' for information about '' @ quote @ k @ quote @ ''.'' @
          '' Find detailed facts, comparisons, and recent developments.'' @
          '' Create a comprehensive summary with key points organized by subtopics.'' @
          '' Include up to '' @ str_int (max_results opts) @
          '' most relevant findings.'' @ focus_str opts)"
  by (simp add: build_task_def depth_desc_def depth_level_def min_def max_def)

lemma write_header_effect:
  assumes "files w p = Some c"
  shows "\<exists>hdr n. write_header e opts k p w = w\<lparr>ticks := ticks w + n, files := (files w)(p \<mapsto> c @ hdr)\<rparr>
           \<and> (blog_style opts \<longrightarrow> hdr = [] \<and> n = 0)"
proof (cases "blog_style opts")
  case True
  then have "write_header e opts k p w = w\<lparr>ticks := ticks w + 0, files := (files w)(p \<mapsto> c @ [])\<rparr>"
    using assms by (simp add: write_header_def fun_upd_idem)
  then show ?thesis using True by blast
next
  case False
  show ?thesis
  proof (cases "output_format opts = ''markdown''")
    case True
    show ?thesis
      apply (rule exI [of _ "''# Summary: '' @ k @ ''\<newline>\<newline>'' @ ''*Generated on: '' @ strftime_human (clock e (ticks w)) @ ''*\<newline>\<newline>'' @
         (if focus_areas opts \<noteq> [] then ''**Focus Areas:** '' @ join '', '' (focus_areas opts) @ ''\<newline>\<newline>'' else [])"])
      apply (rule exI [of _ 1])
      using assms False True
      by (simp add: write_header_def Let_def now_def f_write_def)
  next
    case nm: False
    show ?thesis
      apply (rule exI [of _ "''SUMMARY: '' @ k @ ''\<newline>'' @ ''Generated on: '' @ strftime_human (clock e (ticks w)) @ ''\<newline>'' @
         (if focus_areas opts \<noteq> [] then ''Focus Areas: '' @ join '', '' (focus_areas opts) @ ''\<newline>\<newline>'' else [])"])
      apply (rule exI [of _ 1])
      using assms False nm
      by (simp add: write_header_def Let_def now_def f_write_def)
  qed
qed

lemma save_summary_json:
  assumes "output_format opts = ''json''"
    and "open_error e (path_join (output_dir opts) (file_name k (clock e (ticks w)) ''json'')) = None"
  shows "save_summary e opts k text dur w =
     (Inr (path_join (output_dir opts) (file_name k (clock e (ticks w)) ''json'')),
      w\<lparr>ticks := Suc (Suc (ticks w)),
        files := (files w)(path_join (output_dir opts) (file_name k (clock e (ticks w)) ''json'') \<mapsto>
                   json_dumps e (json_data k (clock e (Suc (ticks w))) text opts dur))\<rparr>)"
  using assms by (simp add: save_summary_def Let_def now_def open_w_def f_write_def)

lemma save_summary_text:
  assumes "output_format opts \<noteq> ''json''"
    and "open_error e (path_join (output_dir opts) (file_name k (clock e (ticks w)) (extension (output_format opts)))) = None"
  shows "\<exists>hdr n. save_summary e opts k text dur w =
     (Inr (path_join (output_dir opts) (file_name k (clock e (ticks w)) (extension (output_format opts)))),
      w\<lparr>ticks := Suc (ticks w) + n,
        files := (files w)(path_join (output_dir opts) (file_name k (clock e (ticks w)) (extension (output_format opts))) \<mapsto>
                   hdr @ text)\<rparr>) \<and> (blog_style opts \<longrightarrow> hdr = [])"
proof -
  let ?p = "path_join (output_dir opts) (file_name k (clock e (ticks w)) (extension (output_format opts)))"
  let ?w1 = "w\<lparr>ticks := Suc (ticks w), files := (files w)(?p \<mapsto> [])\<rparr>"
  have "files ?w1 ?p = Some []" by simp
  from write_header_effect [OF this, of e opts k]
  obtain hdr n where h: "write_header e opts k ?p ?w1 = ?w1\<lparr>ticks := ticks ?w1 + n, files := (files ?w1)(?p \<mapsto> [] @ hdr)\<rparr>"
    and b: "blog_style opts \<longrightarrow> hdr = [] \<and> n = 0" by blast
  have "save_summary e opts k text dur w = (Inr ?p, f_write ?p text (write_header e opts k ?p ?w1))"
    using assms by (simp add: save_summary_def Let_def now_def open_w_def)
  also have "f_write ?p text (write_header e opts k ?p ?w1) = w\<lparr>ticks := Suc (ticks w) + n, files := (files w)(?p \<mapsto> hdr @ text)\<rparr>"
    unfolding h by (simp add: f_write_def)
  finally show ?thesis using b by blast
qed

text \<open>Saving, whatever the format: one file changes, nothing else but the clock.\<close>

lemma save_summary_ok:
  assumes "open_error e (path_join (output_dir opts) (file_name k (clock e (ticks w)) (extension (output_format opts)))) = None"
  shows "\<exists>w' hdr. save_summary e opts k text dur w =
     (Inr (path_join (output_dir opts) (file_name k (clock e (ticks w)) (extension (output_format opts)))), w') \<and>
     files w' = (files w)(path_join (output_dir opts) (file_name k (clock e (ticks w)) (extension (output_format opts))) \<mapsto>
        (if output_format opts = ''json''
         then json_dumps e (json_data k (clock e (Suc (ticks w))) text opts dur)
         else hdr @ text)) \<and>
     (blog_style opts \<longrightarrow> hdr = []) \<and>
     llm_prompts w' = llm_prompts w \<and> agent_tasks w' = agent_tasks w \<and> stdout w' = stdout w \<and> dirs w' = dirs w"
proof (cases "output_format opts = ''json''")
  case True
  with assms save_summary_json [of opts e k w "text" dur] show ?thesis by auto
next
  case False
  with assms save_summary_text [of opts e k w "text" dur]
  obtain hdr n where "save_summary e opts k text dur w =
     (Inr (path_join (output_dir opts) (file_name k (clock e (ticks w)) (extension (output_format opts)))),
      w\<lparr>ticks := Suc (ticks w) + n,
        files := (files w)(path_join (output_dir opts) (file_name k (clock e (ticks w)) (extension (output_format opts))) \<mapsto>
                   hdr @ text)\<rparr>)" and "blog_style opts \<longrightarrow> hdr = []" by blast
  with False show ?thesis by auto
qed

lemma transform_skip:
  "\<not> blog \<Longrightarrow> lower lang = ''english'' \<Longrightarrow> transform e n lang blog text w = (Inr text, w)"
  by (simp add: transform_def)

lemma transform_call:
  "blog \<or> lower lang \<noteq> ''english'' \<Longrightarrow>
   transform e n lang blog text w =
     (llm_invoke e (length (llm_prompts w)) (blog_prompt n (lower lang) text),
      w\<lparr>stdout := stdout w @ [''Transforming results to '' @ lang @ '' blog-style article...''],
        llm_prompts := llm_prompts w @ [blog_prompt n (lower lang) text]\<rparr>)"
  by (auto simp: transform_def Let_def invoke_llm_def print_line_def)

lemma transform_ok:
  assumes "blog \<or> lower lang \<noteq> ''english'' \<Longrightarrow>
             llm_invoke e (length (llm_prompts w)) (blog_prompt n (lower lang) text) = Inr article"
  shows "\<exists>w'. transform e n lang blog text w =
           (Inr (if blog \<or> lower lang \<noteq> ''english'' then article else text), w') \<and>
         llm_prompts w' = llm_prompts w @
           (if blog \<or> lower lang \<noteq> ''english'' then [blog_prompt n (lower lang) text] else []) \<and>
         ticks w' = ticks w \<and> files w' = files w \<and> agent_tasks w' = agent_tasks w \<and> dirs w' = dirs w"
proof (cases "blog \<or> lower lang \<noteq> ''english''")
  case True
  with assms transform_call [OF True, of e n "text" w] show ?thesis by auto
next
  case False
  then show ?thesis by (simp add: transform_def)
qed

lemma process_keyword_ok:
  assumes task: "build_task k opts = Inr task"
    and agent: "agent_run e (length (agent_tasks w)) task = Inr result"
    and ext: "extract_text result = Inr text"
    and llm: "blog_style opts \<or> lower (language opts) \<noteq> ''english'' \<Longrightarrow>
                llm_invoke e (length (llm_prompts w)) (blog_prompt 16 (lower (language opts)) text) = Inr article"
    and mk: "makedirs_error e (output_dir opts) = None"
    and op: "open_error e (path_join (output_dir opts)
               (file_name k (clock e (Suc (Suc (ticks w)))) (extension (output_format opts)))) = None"
  shows "\<exists>w' hdr. process_keyword e opts k w =
      (Inr \<lparr>output_file = path_join (output_dir opts)
               (file_name k (clock e (Suc (Suc (ticks w)))) (extension (output_format opts))),
            duration_seconds = total_seconds (clock e (Suc (ticks w))) (clock e (ticks w))\<rparr>, w') \<and>
      files w' = (files w)(path_join (output_dir opts)
               (file_name k (clock e (Suc (Suc (ticks w)))) (extension (output_format opts))) \<mapsto>
        (if output_format opts = ''json''
         then json_dumps e (json_data k (clock e (Suc (Suc (Suc (ticks w)))))
                (if blog_style opts \<or> lower (language opts) \<noteq> ''english'' then article else text) opts
                (total_seconds (clock e (Suc (ticks w))) (clock e (ticks w))))
         else hdr @ (if blog_style opts \<or> lower (language opts) \<noteq> ''english'' then article else text))) \<and>
      (blog_style opts \<longrightarrow> hdr = []) \<and>
      llm_prompts w' = llm_prompts w @
           (if blog_style opts \<or> lower (language opts) \<noteq> ''english''
            then [blog_prompt 16 (lower (language opts)) text] else []) \<and>
      agent_tasks w' = agent_tasks w @ [task]"
proof -
  let ?w4 = "snd (now e (snd (run_agent e task (snd (now e
                 (print_line ''This may take a few minutes depending on search depth...''
                   (print_line (''Starting deep search for: '' @ k) w)))))))"
  have w4: "llm_prompts ?w4 = llm_prompts w" "ticks ?w4 = Suc (Suc (ticks w))"
    "files ?w4 = files w" "agent_tasks ?w4 = agent_tasks w @ [task]"
    by (simp_all add: now_def run_agent_def print_line_def)
  let ?final = "if blog_style opts \<or> lower (language opts) \<noteq> ''english'' then article else text"
  let ?dur = "total_seconds (clock e (Suc (ticks w))) (clock e (ticks w))"
  let ?p = "path_join (output_dir opts) (file_name k (clock e (Suc (Suc (ticks w)))) (extension (output_format opts)))"
  have llm4: "blog_style opts \<or> lower (language opts) \<noteq> ''english'' \<Longrightarrow>
     llm_invoke e (length (llm_prompts ?w4)) (blog_prompt 16 (lower (language opts)) text) = Inr article"
    using llm w4 by simp
  from transform_ok [of "blog_style opts" "language opts" e ?w4 16 "text" article, OF llm4]
  obtain w5 where t5: "transform e 16 (language opts) (blog_style opts) text ?w4 = (Inr ?final, w5)"
    and l5: "llm_prompts w5 = llm_prompts w @ (if blog_style opts \<or> lower (language opts) \<noteq> ''english''
            then [blog_prompt 16 (lower (language opts)) text] else [])"
    and k5: "ticks w5 = Suc (Suc (ticks w))" and f5: "files w5 = files w"
    and a5: "agent_tasks w5 = agent_tasks w @ [task]"
    unfolding w4 by blast
  let ?w6 = "w5\<lparr>dirs := insert (output_dir opts) (dirs w5)\<rparr>"
  have m6: "makedirs e (output_dir opts) w5 = (Inr (), ?w6)"
    using mk by (simp add: makedirs_def)
  have op6: "open_error e (path_join (output_dir opts) (file_name k (clock e (ticks ?w6)) (extension (output_format opts)))) = None"
    using op k5 by simp
  from save_summary_ok [OF op6, of ?final ?dur]
  obtain w7 hdr where s7': "save_summary e opts k ?final ?dur ?w6 =
       (Inr (path_join (output_dir opts) (file_name k (clock e (ticks ?w6)) (extension (output_format opts)))), w7)"
    and f7': "files w7 = (files ?w6)(path_join (output_dir opts) (file_name k (clock e (ticks ?w6)) (extension (output_format opts))) \<mapsto>
        (if output_format opts = ''json''
         then json_dumps e (json_data k (clock e (Suc (ticks ?w6))) ?final opts ?dur)
         else hdr @ ?final))"
    and h7: "blog_style opts \<longrightarrow> hdr = []"
    and l7: "llm_prompts w7 = llm_prompts ?w6" and a7: "agent_tasks w7 = agent_tasks ?w6"
    by blast
  have s7: "save_summary e opts k ?final ?dur ?w6 = (Inr ?p, w7)"
    using s7' k5 by simp
  have f7: "files w7 = (files w)(?p \<mapsto>
        (if output_format opts = ''json''
         then json_dumps e (json_data k (clock e (Suc (Suc (Suc (ticks w))))) ?final opts ?dur)
         else hdr @ ?final))"
    using f7' k5 f5 by simp
  have "process_keyword e opts k w =
      (Inr \<lparr>output_file = ?p, duration_seconds = ?dur\<rparr>,
       print_line (''Summary for '' @ quote @ k @ quote @ '' saved to: '' @ ?p) w7)"
    unfolding process_keyword_def
    using task agent ext t5 m6 s7
    by (simp add: Let_def now_def run_agent_def print_line_def)
  then show ?thesis
    using f7 h7 l7 l5 a7 a5 by (intro exI [of _ "print_line (''Summary for '' @ quote @ k @ quote @ '' saved to: '' @ ?p) w7"] exI [of _ hdr]) (simp add: print_line_def)
qed

text \<open>No step but the agent call touches the list of tasks handed to the agent.\<close>

lemma agent_tasks_f_write [simp]: "agent_tasks (f_write p s w) = agent_tasks w"
  by (simp add: f_write_def)
lemma agent_tasks_print_line [simp]: "agent_tasks (print_line s w) = agent_tasks w"
  by (simp add: print_line_def)
lemma agent_tasks_now [simp]: "agent_tasks (snd (now e w)) = agent_tasks w"
  by (simp add: now_def)
lemma agent_tasks_open_w [simp]: "agent_tasks (snd (open_w e p w)) = agent_tasks w"
  by (simp add: open_w_def split: option.splits)
lemma agent_tasks_makedirs [simp]: "agent_tasks (snd (makedirs e p w)) = agent_tasks w"
  by (simp add: makedirs_def split: option.splits)
lemma agent_tasks_transform [simp]: "agent_tasks (snd (transform e n l b t w)) = agent_tasks w"
  by (simp add: transform_def invoke_llm_def Let_def)
lemma agent_tasks_write_header [simp]: "agent_tasks (write_header e opts k p w) = agent_tasks w"
  by (simp add: write_header_def Let_def now_def split: prod.splits)
lemma agent_tasks_save_summary [simp]:
  "agent_tasks (snd (save_summary e opts k t d w)) = agent_tasks w"
  by (simp add: save_summary_def Let_def now_def open_w_def split: prod.splits sum.splits option.splits)

lemma agent_tasks_transform': "transform e n l b t w = (r, w') \<Longrightarrow> agent_tasks w' = agent_tasks w"
  using agent_tasks_transform [of e n l b t w] by simp
lemma agent_tasks_makedirs': "makedirs e p w = (r, w') \<Longrightarrow> agent_tasks w' = agent_tasks w"
  using agent_tasks_makedirs [of e p w] by simp
lemma agent_tasks_save_summary': "save_summary e opts k t d w = (r, w') \<Longrightarrow> agent_tasks w' = agent_tasks w"
  using agent_tasks_save_summary [of e opts k t d w] by simp

lemma agent_tasks_process_keyword: "build_task keyword opts = Inr task \<Longrightarrow> agent_tasks (snd (process_keyword e opts keyword w)) = agent_tasks w @ [task]"
  unfolding process_keyword_def
  by (auto simp: Let_def run_agent_def now_def split: prod.splits sum.splits
      dest!: agent_tasks_transform' agent_tasks_makedirs' agent_tasks_save_summary')

text \<open>The single-keyword variant, when its collaborators succeed.\<close>

lemma simple_ok:
  assumes agent: "agent_run e (length (agent_tasks w)) (simple_task k d) = Inr result"
    and ext: "extract_text result = Inr body"
    and llm: "blog \<or> lower lang \<noteq> ''english'' \<Longrightarrow>
                llm_invoke e (length (llm_prompts w)) (blog_prompt 12 (lower lang) body) = Inr article"
    and op: "open_error e (case out_file of
                             None \<Rightarrow> file_name k (clock e (ticks w)) ''md''
                           | Some p \<Rightarrow> if p = [] then file_name k (clock e (ticks w)) ''md'' else p) = None"
  shows "\<exists>w' hdr. simple_search_and_summarize e k d out_file lang blog w =
      (Inr (case out_file of
              None \<Rightarrow> file_name k (clock e (ticks w)) ''md''
            | Some p \<Rightarrow> if p = [] then file_name k (clock e (ticks w)) ''md'' else p), w') \<and>
      files w' = (files w)((case out_file of
              None \<Rightarrow> file_name k (clock e (ticks w)) ''md''
            | Some p \<Rightarrow> if p = [] then file_name k (clock e (ticks w)) ''md'' else p) \<mapsto>
         hdr @ (if blog \<or> lower lang \<noteq> ''english'' then article else body)) \<and>
      (blog \<longrightarrow> hdr = []) \<and>
      llm_prompts w' = llm_prompts w @
           (if blog \<or> lower lang \<noteq> ''english'' then [blog_prompt 12 (lower lang) body] else [])"
proof -
  let ?w2 = "snd (run_agent e (simple_task k d)
                 (print_line ''This may take a few minutes depending on search depth...''
                   (print_line (''Starting deep search for: '' @ k) w)))"
  let ?final = "if blog \<or> lower lang \<noteq> ''english'' then article else body"
  let ?p = "case out_file of
              None \<Rightarrow> file_name k (clock e (ticks w)) ''md''
            | Some p \<Rightarrow> if p = [] then file_name k (clock e (ticks w)) ''md'' else p"
  have w2: "llm_prompts ?w2 = llm_prompts w" "ticks ?w2 = ticks w" "files ?w2 = files w"
    by (simp_all add: run_agent_def print_line_def)
  have llm2: "blog \<or> lower lang \<noteq> ''english'' \<Longrightarrow>
     llm_invoke e (length (llm_prompts ?w2)) (blog_prompt 12 (lower lang) body) = Inr article"
    using llm w2 by simp
  from transform_ok [of blog lang e ?w2 12 body article, OF llm2]
  obtain w3 where t3: "transform e 12 lang blog body ?w2 = (Inr ?final, w3)"
    and l3: "llm_prompts w3 = llm_prompts w @ (if blog \<or> lower lang \<noteq> ''english''
            then [blog_prompt 12 (lower lang) body] else [])"
    and k3: "ticks w3 = ticks w" and f3: "files w3 = files w"
    unfolding w2 by blast
  let ?hdr = "if blog then [] else ''# Summary: '' @ k @ ''\<newline>\<newline>'' @
                ''*Generated on: '' @ strftime_human (clock e (ticks w + (case out_file of None \<Rightarrow> 1 | Some p \<Rightarrow> if p = [] then 1 else 0))) @ ''*\<newline>\<newline>''"
  have "\<exists>w'. simple_search_and_summarize e k d out_file lang blog w = (Inr ?p, w') \<and>
          files w' = (files w)(?p \<mapsto> ?hdr @ ?final) \<and> llm_prompts w' = llm_prompts w3"
    unfolding simple_search_and_summarize_def
    using agent ext t3 op k3 f3
    by (auto simp: Let_def run_agent_def print_line_def now_def open_w_def f_write_def
             split: option.splits)
  then obtain w' where "simple_search_and_summarize e k d out_file lang blog w = (Inr ?p, w')"
    and "files w' = (files w)(?p \<mapsto> ?hdr @ ?final)" and "llm_prompts w' = llm_prompts w3"
    by blast
  with l3 show ?thesis by (intro exI [of _ w'] exI [of _ ?hdr]) simp
qed

text \<open>The loop body, when every collaborator succeeds.\<close>

lemma paths_differ:
  "path_join d (file_name ''A'' t x) \<noteq> path_join d (file_name ''B'' t' x')"
  by (simp add: path_join_def file_name_def safe_keyword_def replace_char_def)

lemma total_seconds_nonneg:
  "microseconds_of s \<le> microseconds_of t \<Longrightarrow> 0 \<le> total_seconds t s"
  by (simp add: total_seconds_def)

lemma process_keyword_total:
  assumes agent: "\<forall>n task. \<exists>r t. agent_run e n task = Inr r \<and> extract_text r = Inr t"
    and llm: "\<forall>n p. \<exists>s. llm_invoke e n p = Inr s"
    and mk: "\<forall>d. makedirs_error e d = None"
    and op: "\<forall>p. open_error e p = None"
  shows "\<exists>w' c. process_keyword e opts k w =
      (Inr \<lparr>output_file = path_join (output_dir opts)
               (file_name k (clock e (Suc (Suc (ticks w)))) (extension (output_format opts))),
            duration_seconds = total_seconds (clock e (Suc (ticks w))) (clock e (ticks w))\<rparr>, w') \<and>
      files w' = (files w)(path_join (output_dir opts)
               (file_name k (clock e (Suc (Suc (ticks w)))) (extension (output_format opts))) \<mapsto> c)"
proof -
  obtain task where t: "build_task k opts = Inr task" by (simp add: build_task_total)
  from agent obtain r x where r: "agent_run e (length (agent_tasks w)) task = Inr r"
    and x: "extract_text r = Inr x" by blast
  from llm obtain s where s: "llm_invoke e (length (llm_prompts w)) (blog_prompt 16 (lower (language opts)) x) = Inr s"
    by blast
  from mk have m: "makedirs_error e (output_dir opts) = None" by simp
  from op have o: "open_error e (path_join (output_dir opts)
               (file_name k (clock e (Suc (Suc (ticks w)))) (extension (output_format opts)))) = None" by simp
  from process_keyword_ok [OF t r x s m o] show ?thesis by blast
qed

section \<open>Configuration and task description\<close>

text \<open>
  Claim C3, as the code has it. The resolver fills every missing key with its default and
  keeps a supplied depth as it is, in range or not. The clamp is a separate value,
  \<open>depth_level\<close>, computed from the merged depth for the task description only; it lies
  in 1..3, equals the depth inside that range, and is 1 below it and 3 above it.
\<close>

theorem resolve_options_depth:
  "resolve_options None = default_options \<and>
   depth (resolve_options (Some s)) = (case given_depth s of None \<Rightarrow> 2 | Some d \<Rightarrow> d) \<and>
   output_format (resolve_options (Some s)) =
     (case given_output_format s of None \<Rightarrow> ''markdown'' | Some v \<Rightarrow> v) \<and>
   output_dir (resolve_options (Some s)) =
     (case given_output_dir s of None \<Rightarrow> ''.'' | Some v \<Rightarrow> v) \<and>
   max_results (resolve_options (Some s)) =
     (case given_max_results s of None \<Rightarrow> 10 | Some v \<Rightarrow> v) \<and>
   focus_areas (resolve_options (Some s)) =
     (case given_focus_areas s of None \<Rightarrow> [] | Some v \<Rightarrow> v) \<and>
   language (resolve_options (Some s)) =
     (case given_language s of None \<Rightarrow> ''english'' | Some v \<Rightarrow> v) \<and>
   blog_style (resolve_options (Some s)) =
     (case given_blog_style s of None \<Rightarrow> False | Some v \<Rightarrow> v) \<and>
   depth_level (resolve_options options) \<in> {1, 2, 3} \<and>
   depth_level opts = (if depth opts < 1 then 1 else if 3 < depth opts then 3 else depth opts)"
  by (auto simp: resolve_options_def merge_def default_options_def empty_options_def
                 depth_level_def min_def max_def split: option.splits)

text \<open>The claim fails for a supplied depth of 7: the resolved record holds 7.\<close>

theorem depth_not_clamped_counterexample:
  "depth (resolve_options (Some out_of_range_options)) = 7 \<and>
   depth (resolve_options (Some out_of_range_options)) \<notin> {1, 2, 3}"
  by (simp add: resolve_options_def merge_def out_of_range_options_def empty_options_def)

text \<open>
  Claim C4, as the code has it. The multi-keyword variant maps the clamped depth to
  "briefly" (depth 1 and below), "thoroughly" (depth 2) and "exhaustively" (depth 3 and
  above), and its dictionary lookup never raises. The single-keyword variant knows two
  adverbs only: "thoroughly" for every depth from 2 up, depth 3 included, and "briefly"
  below.
\<close>

theorem depth_adverbs:
  "build_task k opts =
     Inr (''Search '' @
          (if depth opts \<le> 1 then ''briefly''
           else if depth opts = 2 then ''thoroughly'' else ''exhaustively'') @
          '' for information about '' @ quote @ k @ quote @ ''.'' @
          '' Find detailed facts, comparisons, and recent developments.'' @
          '' Create a comprehensive summary with key points organized by subtopics.'' @
          '' Include up to '' @ str_int (max_results opts) @
          '' most relevant findings.'' @ focus_str opts) \<and>
   simple_task k d =
     ''Search '' @ (if 2 \<le> d then ''thoroughly'' else ''briefly'') @
     '' for information about '' @ quote @ k @ quote @
     ''. Find detailed facts, comparisons, and recent developments.'' @
     '' Create a comprehensive summary with key points organized by subtopics.''"
  by (simp add: build_task_total simple_task_def simple_depth_desc_def)

text \<open>The claim fails in the single-keyword variant at depth 3.\<close>

theorem simple_depth_three_counterexample:
  "simple_task ''rust'' 3 =
     ''Search thoroughly for information about '' @ quote @ ''rust'' @ quote @
     ''. Find detailed facts, comparisons, and recent developments.'' @
     '' Create a comprehensive summary with key points organized by subtopics.'' \<and>
   simple_depth_desc 3 \<noteq> ''exhaustively''"
  by (simp add: simple_task_def simple_depth_desc_def)

text \<open>
  Claim C9. The task description is a function of the keyword and the options alone:
  \<open>build_task\<close> takes no world and returns none, it always yields a task, and in any two
  runs of the loop body on the same keyword and options, whatever the environments and
  the worlds they start from, the agent is handed that same task, once.
\<close>

theorem task_description_pure:
  "\<exists>task. build_task keyword opts = Inr task \<and>
     agent_tasks (snd (process_keyword e1 opts keyword w1)) = agent_tasks w1 @ [task] \<and>
     agent_tasks (snd (process_keyword e2 opts keyword w2)) = agent_tasks w2 @ [task]"
  using agent_tasks_process_keyword build_task_total by blast

section \<open>JSON output\<close>

text \<open>
  Claim C10. With JSON output, the \<open>metadata.depth\<close> field of the document written to the
  output file is the depth the caller supplied, as it is; the clamped \<open>depth_level\<close> is a
  different value whenever the supplied depth lies outside 1..3.
\<close>

theorem json_depth_verbatim:
  assumes "given_depth s = Some d"
    and "given_output_format s = Some ''json''"
    and "open_error e (path_join (output_dir (resolve_options (Some s)))
                         (file_name k (clock e (ticks w)) ''json'')) = None"
  shows "\<exists>path doc w'.
           save_summary e (resolve_options (Some s)) k body dur w = (Inr path, w') \<and>
           files w' path = Some (json_dumps e doc) \<and>
           json_get_in doc [''metadata'', ''depth''] = Inr (JInt d) \<and>
           depth_level (resolve_options (Some s)) = min (max d 1) 3"
proof -
  let ?opts = "resolve_options (Some s)"
  have d: "depth ?opts = d" and f: "output_format ?opts = ''json''"
    using assms by (simp_all add: resolve_options_def merge_def)
  let ?path = "path_join (output_dir ?opts) (file_name k (clock e (ticks w)) ''json'')"
  let ?doc = "json_data k (clock e (Suc (ticks w))) body ?opts dur"
  have "json_get_in ?doc [''metadata'', ''depth''] = Inr (JInt d)"
    by (simp add: json_data_def d)
  moreover have "depth_level ?opts = min (max d 1) 3"
    by (simp add: depth_level_def d)
  ultimately show ?thesis
    using save_summary_json [OF f assms(3), of body dur] by auto
qed

theorem json_depth_verbatim_witness:
  "given_depth out_of_range_options = Some 7 \<and>
   given_output_format out_of_range_options = Some ''json'' \<and>
   open_error demo_env
     (path_join (output_dir (resolve_options (Some out_of_range_options)))
        (file_name ''A'' (clock demo_env (ticks initial_world)) ''json'')) = None \<and>
   (\<exists>path doc w'.
      save_summary demo_env (resolve_options (Some out_of_range_options)) ''A'' ''summary'' 1
        initial_world = (Inr path, w') \<and>
      files w' path = Some (render 0 doc) \<and>
      json_get_in doc [''metadata'', ''depth''] = Inr (JInt 7)) \<and>
   depth_level (resolve_options (Some out_of_range_options)) = 3"
proof -
  have h1: "given_depth out_of_range_options = Some 7"
    and h2: "given_output_format out_of_range_options = Some ''json''"
    by (simp_all add: out_of_range_options_def empty_options_def)
  have h3: "open_error demo_env
     (path_join (output_dir (resolve_options (Some out_of_range_options)))
        (file_name ''A'' (clock demo_env (ticks initial_world)) ''json'')) = None"
    by (simp add: demo_env_def)
  have j: "json_dumps demo_env = render 0"
    by (simp add: demo_env_def)
  from json_depth_verbatim [OF h1 h2 h3, of "''summary''" 1]
  show ?thesis using h1 h2 h3 unfolding j by auto
qed



section \<open>The optional transformation\<close>

text \<open>
  Claim C5. Let the collaborators succeed. In both variants the LLM is invoked exactly
  when the blog-style flag is set or the lower-cased language differs from "english", and
  then once, with the prompt built from the lower-cased language and the extracted text;
  otherwise no prompt is sent. The text written to the output file (after the header, or
  as the \<open>summary\<close> of the JSON document) is the LLM's answer when it was invoked and
  the extracted text, unchanged, when it was not.
\<close>

theorem transformation_trigger:
  assumes agent: "\<forall>n task. agent_run e n task = Inr result"
    and ext: "extract_text result = Inr body"
    and llm: "\<forall>n p. llm_invoke e n p = Inr article"
    and mk: "\<forall>d. makedirs_error e d = None"
    and op: "\<forall>p. open_error e p = None"
  shows "(\<exists>entry w' hdr t.
            process_keyword e opts k w = (Inr entry, w') \<and>
            llm_prompts w' = llm_prompts w @
              (if blog_style opts \<or> lower (language opts) \<noteq> ''english''
               then [blog_prompt 16 (lower (language opts)) body] else []) \<and>
            (llm_prompts w' = llm_prompts w) =
              (\<not> blog_style opts \<and> lower (language opts) = ''english'') \<and>
            files w' (output_file entry) =
              Some (if output_format opts = ''json''
                    then json_dumps e
                           (json_data k t
                              (if blog_style opts \<or> lower (language opts) \<noteq> ''english''
                               then article else body)
                              opts (duration_seconds entry))
                    else hdr @ (if blog_style opts \<or> lower (language opts) \<noteq> ''english''
                                then article else body))) \<and>
         (\<exists>p w'' hdr.
            simple_search_and_summarize e k d out_file lang blog w = (Inr p, w'') \<and>
            llm_prompts w'' = llm_prompts w @
              (if blog \<or> lower lang \<noteq> ''english'' then [blog_prompt 12 (lower lang) body] else []) \<and>
            (llm_prompts w'' = llm_prompts w) = (\<not> blog \<and> lower lang = ''english'') \<and>
            files w'' p = Some (hdr @ (if blog \<or> lower lang \<noteq> ''english'' then article else body)))"
proof -
  obtain task where t: "build_task k opts = Inr task" by (simp add: build_task_total)
  from agent have a1: "agent_run e (length (agent_tasks w)) task = Inr result"
    and a2: "agent_run e (length (agent_tasks w)) (simple_task k d) = Inr result" by simp_all
  from llm have l1: "llm_invoke e (length (llm_prompts w)) (blog_prompt 16 (lower (language opts)) body) = Inr article"
    and l2: "llm_invoke e (length (llm_prompts w)) (blog_prompt 12 (lower lang) body) = Inr article" by simp_all
  from mk have m: "makedirs_error e (output_dir opts) = None" by simp
  from op have o1: "open_error e (path_join (output_dir opts)
               (file_name k (clock e (Suc (Suc (ticks w)))) (extension (output_format opts)))) = None"
    and o2: "open_error e (case out_file of
                             None \<Rightarrow> file_name k (clock e (ticks w)) ''md''
                           | Some p \<Rightarrow> if p = [] then file_name k (clock e (ticks w)) ''md'' else p) = None"
    by simp_all
  let ?p = "path_join (output_dir opts)
               (file_name k (clock e (Suc (Suc (ticks w)))) (extension (output_format opts)))"
  let ?entry = "\<lparr>output_file = ?p,
                 duration_seconds = total_seconds (clock e (Suc (ticks w))) (clock e (ticks w))\<rparr>"
  let ?final = "if blog_style opts \<or> lower (language opts) \<noteq> ''english'' then article else body"
  from process_keyword_ok [OF t a1 ext l1 m o1]
  obtain w' hdr where r1: "process_keyword e opts k w = (Inr ?entry, w')"
    and f1: "files w' = (files w)(?p \<mapsto>
        (if output_format opts = ''json''
         then json_dumps e (json_data k (clock e (Suc (Suc (Suc (ticks w))))) ?final opts
                (total_seconds (clock e (Suc (ticks w))) (clock e (ticks w))))
         else hdr @ ?final))"
    and p1: "llm_prompts w' = llm_prompts w @
           (if blog_style opts \<or> lower (language opts) \<noteq> ''english''
            then [blog_prompt 16 (lower (language opts)) body] else [])"
    by blast
  have multi: "\<exists>entry w' hdr t.
            process_keyword e opts k w = (Inr entry, w') \<and>
            llm_prompts w' = llm_prompts w @
              (if blog_style opts \<or> lower (language opts) \<noteq> ''english''
               then [blog_prompt 16 (lower (language opts)) body] else []) \<and>
            (llm_prompts w' = llm_prompts w) =
              (\<not> blog_style opts \<and> lower (language opts) = ''english'') \<and>
            files w' (output_file entry) =
              Some (if output_format opts = ''json''
                    then json_dumps e
                           (json_data k t
                              (if blog_style opts \<or> lower (language opts) \<noteq> ''english''
                               then article else body)
                              opts (duration_seconds entry))
                    else hdr @ (if blog_style opts \<or> lower (language opts) \<noteq> ''english''
                                then article else body))"
    apply (rule exI [of _ ?entry])
    apply (rule exI [of _ w'])
    apply (rule exI [of _ hdr])
    apply (rule exI [of _ "clock e (Suc (Suc (Suc (ticks w))))"])
    using r1 f1 p1 by simp
  let ?q = "case out_file of
              None \<Rightarrow> file_name k (clock e (ticks w)) ''md''
            | Some p \<Rightarrow> if p = [] then file_name k (clock e (ticks w)) ''md'' else p"
  from simple_ok [OF a2 ext l2 o2]
  obtain w'' hdr' where r2: "simple_search_and_summarize e k d out_file lang blog w = (Inr ?q, w'')"
    and f2: "files w'' = (files w)(?q \<mapsto>
               hdr' @ (if blog \<or> lower lang \<noteq> ''english'' then article else body))"
    and p2: "llm_prompts w'' = llm_prompts w @
           (if blog \<or> lower lang \<noteq> ''english'' then [blog_prompt 12 (lower lang) body] else [])"
    by blast
  have simple: "\<exists>p w'' hdr.
            simple_search_and_summarize e k d out_file lang blog w = (Inr p, w'') \<and>
            llm_prompts w'' = llm_prompts w @
              (if blog \<or> lower lang \<noteq> ''english'' then [blog_prompt 12 (lower lang) body] else []) \<and>
            (llm_prompts w'' = llm_prompts w) = (\<not> blog \<and> lower lang = ''english'') \<and>
            files w'' p = Some (hdr @ (if blog \<or> lower lang \<noteq> ''english'' then article else body))"
    apply (rule exI [of _ ?q])
    apply (rule exI [of _ w''])
    apply (rule exI [of _ hdr'])
    using r2 f2 p2 by simp
  from multi simple show ?thesis by (rule conjI)
qed


theorem transformation_trigger_witness:
  "extract_text text_result = Inr ''final answer'' \<and>
   (\<exists>entry w' hdr.
      process_keyword demo_env default_options ''quantum computing'' initial_world =
        (Inr entry, w') \<and>
      llm_prompts w' = [] \<and>
      files w' (output_file entry) = Some (hdr @ ''final answer'')) \<and>
   (\<exists>p w'' hdr.
      simple_search_and_summarize demo_env ''quantum computing'' 1 None ''Chinese'' False
        initial_world = (Inr p, w'') \<and>
      llm_prompts w'' = [blog_prompt 12 ''chinese'' ''final answer''] \<and>
      files w'' p = Some (hdr @ ''# A blog article''))"
proof -
  have h1: "\<forall>n task. agent_run demo_env n task = Inr text_result"
    and h3: "\<forall>n p. llm_invoke demo_env n p = Inr ''# A blog article''"
    and h4: "\<forall>d. makedirs_error demo_env d = None"
    and h5: "\<forall>p. open_error demo_env p = None"
    by (simp_all add: demo_env_def)
  have h2: "extract_text text_result = Inr ''final answer''"
    by (simp add: text_result_def extract_text_def hasattr_def)
  have e1: "lower (language default_options) = ''english''"
    and e2: "\<not> blog_style default_options"
    and e3: "output_format default_options \<noteq> ''json''"
    and e4: "lower ''Chinese'' = ''chinese''"
    and e5: "llm_prompts initial_world = []"
    by (simp_all add: default_options_def lower_def lower_char_def initial_world_def)
  from transformation_trigger [OF h1 h2 h3 h4 h5, of default_options "''quantum computing''"
                                 initial_world 1 None "''Chinese''" False]
  show ?thesis using h2 e1 e2 e3 e4 e5 by auto
qed

section \<open>Derived file names\<close>

lemma safe_keyword_map:
  "safe_keyword k =
     map (\<lambda>c. if c = CHR '' '' \<or> c = CHR ''/'' \<or> c = CHR 0x5C then CHR ''_'' else c) k"
  by (simp add: safe_keyword_def replace_char_def)

lemma strftime_compact_shape:
  assumes "valid_datetime t"
  shows "length (strftime_compact t) = 15"
    and "strftime_compact t ! 8 = CHR ''_''"
    and "\<And>i. i < 15 \<Longrightarrow> i \<noteq> 8 \<Longrightarrow> is_digit (strftime_compact t ! i)"
proof -
  from assms have y: "year t < 10000" and m: "month t < 100" and h: "hour t < 100"
    and mi: "minute t < 100" and s: "second t < 100"
    by (simp_all add: valid_datetime_def)
  from assms have "day t \<le> days_in_month (year t) (month t)" by (simp add: valid_datetime_def)
  with days_in_month_le [of "year t" "month t"] have d: "day t < 100" by simp
  let ?Y = "zfill 4 (digits (year t))" and ?M = "zfill 2 (digits (month t))"
  let ?D = "zfill 2 (digits (day t))" and ?h = "zfill 2 (digits (hour t))"
  let ?m = "zfill 2 (digits (minute t))" and ?s = "zfill 2 (digits (second t))"
  have len: "length ?Y = 4" "length ?M = 2" "length ?D = 2" "length ?h = 2" "length ?m = 2" "length ?s = 2"
    by (simp_all add: length_zfill length_digits_4 [OF y] length_digits_2 [OF m]
        length_digits_2 [OF d] length_digits_2 [OF h] length_digits_2 [OF mi] length_digits_2 [OF s])
  define A where "A = ?Y @ ?M @ ?D"
  define B where "B = ?h @ ?m @ ?s"
  have eq: "strftime_compact t = A @ CHR ''_'' # B"
    by (simp add: strftime_compact_def A_def B_def)
  have l8: "length A = 8" and l6: "length B = 6"
    using len by (simp_all add: A_def B_def)
  show "length (strftime_compact t) = 15"
    unfolding eq using l8 l6 by simp
  have "(A @ CHR ''_'' # B) ! length A = CHR ''_''"
    by (rule nth_append_length)
  then show "strftime_compact t ! 8 = CHR ''_''"
    unfolding eq l8 .
  have dig1: "\<And>c. c \<in> set A \<Longrightarrow> is_digit c"
    and dig2: "\<And>c. c \<in> set B \<Longrightarrow> is_digit c"
    using zfill_digits_all_digits by (auto simp: A_def B_def)
  fix i :: nat
  assume i: "i < 15" "i \<noteq> 8"
  show "is_digit (strftime_compact t ! i)"
  proof (cases "i < 8")
    case True
    then have "strftime_compact t ! i = A ! i"
      unfolding eq using l8 by (simp add: nth_append)
    moreover have "A ! i \<in> set A"
      using True l8 by (intro nth_mem) simp
    ultimately show ?thesis using dig1 by simp
  next
    case False
    with i have j: "i - 9 < 6" "i > 8" by simp_all
    then have "strftime_compact t ! i = B ! (i - 9)"
      unfolding eq using l8 by (simp add: nth_append nth_Cons')
    moreover have "B ! (i - 9) \<in> set B"
      using j l6 by (intro nth_mem) simp
    ultimately show ?thesis using dig2 by simp
  qed
qed

lemma save_summary_path:
  "save_summary e opts k body dur w = (Inr p, w') \<Longrightarrow>
   p = path_join (output_dir opts) (file_name k (clock e (ticks w)) (extension (output_format opts)))"
  by (auto simp: save_summary_def Let_def now_def open_w_def split: if_splits option.splits)

lemma ticks_transform: "transform e n l b t w = (r, w') \<Longrightarrow> ticks w' = ticks w"
  by (auto simp: transform_def Let_def invoke_llm_def print_line_def split: if_splits)

lemma ticks_makedirs: "makedirs e d w = (r, w') \<Longrightarrow> ticks w' = ticks w"
  by (auto simp: makedirs_def split: option.splits)

lemma process_keyword_path:
  assumes "process_keyword e opts k w = (Inr entry, w')"
  shows "output_file entry = path_join (output_dir opts)
           (file_name k (clock e (Suc (Suc (ticks w)))) (extension (output_format opts)))"
  using assms unfolding process_keyword_def
  by (auto simp: Let_def now_def run_agent_def print_line_def
           split: sum.splits prod.splits
           dest!: ticks_transform ticks_makedirs save_summary_path)

lemma simple_path:
  assumes "simple_search_and_summarize e k d None lang blog w = (Inr p, w')"
  shows "p = file_name k (clock e (ticks w)) ''md''"
  using assms unfolding simple_search_and_summarize_def
  by (auto simp: Let_def now_def run_agent_def print_line_def open_w_def
           split: sum.splits prod.splits option.splits
           dest!: ticks_transform)


text \<open>
  Claim C6. A derived file name is the keyword with every space, slash and backslash
  replaced by an underscore, then an underscore, the timestamp, a dot and the extension.
  For every datetime Python can represent the timestamp has fifteen characters: eight
  digits, an underscore, six digits. The multi-keyword variant always derives the name,
  from the clock reading taken after the agent call, with the extension \<open>json\<close> for the
  format "json", \<open>md\<close> for "markdown" and \<open>txt\<close> for any other format, and puts it under
  the output directory; the single-keyword variant, given no file name, derives it with
  the extension \<open>md\<close>.
\<close>

theorem derived_file_name:
  "file_name keyword t ext =
     map (\<lambda>c. if c = CHR '' '' \<or> c = CHR ''/'' \<or> c = CHR 0x5C then CHR ''_'' else c) keyword @
     ''_'' @ strftime_compact t @ ''.'' @ ext \<and>
   (valid_datetime t \<longrightarrow>
      length (strftime_compact t) = 15 \<and> strftime_compact t ! 8 = CHR ''_'' \<and>
      (\<forall>i<15. i \<noteq> 8 \<longrightarrow> is_digit (strftime_compact t ! i))) \<and>
   (process_keyword e opts keyword w = (Inr entry, w') \<longrightarrow>
      output_file entry =
        path_join (output_dir opts)
          (file_name keyword (clock e (Suc (Suc (ticks w))))
             (if output_format opts = ''json'' then ''json''
              else if output_format opts = ''markdown'' then ''md'' else ''txt''))) \<and>
   (simple_search_and_summarize e keyword d None lang blog w = (Inr p, w'') \<longrightarrow>
      p = file_name keyword (clock e (ticks w)) ''md'')"
  using strftime_compact_shape [of t] process_keyword_path [of e opts keyword w entry w']
        simple_path [of e keyword d lang blog w p w'']
  by (simp add: file_name_def safe_keyword_map)

theorem derived_file_name_witness:
  "valid_datetime (demo_clock 2) \<and>
   file_name awkward_keyword (demo_clock 2) ''md'' = ''a_b_c_d_20240517_103002.md'' \<and>
   length (strftime_compact (demo_clock 2)) = 15 \<and>
   (\<exists>entry w'.
      process_keyword demo_env default_options awkward_keyword initial_world = (Inr entry, w') \<and>
      output_file entry = ''./a_b_c_d_20240517_103002.md'') \<and>
   (\<exists>p w''.
      simple_search_and_summarize demo_env awkward_keyword 2 None ''english'' False
        initial_world = (Inr p, w'') \<and>
      p = ''a_b_c_d_20240517_103000.md'')"
proof -
  have v: "valid_datetime (demo_clock 2)"
    by (simp add: valid_datetime_def demo_clock_def days_in_month_def)
  have h1: "\<forall>n task. \<exists>r t. agent_run demo_env n task = Inr r \<and> extract_text r = Inr t"
    by (simp add: demo_env_def text_result_def extract_text_def hasattr_def)
  have h2: "\<forall>n p. \<exists>s. llm_invoke demo_env n p = Inr s"
    and h3: "\<forall>d. makedirs_error demo_env d = None"
    and h4: "\<forall>p. open_error demo_env p = None"
    by (simp_all add: demo_env_def)
  from process_keyword_total [OF h1 h2 h3 h4, of default_options awkward_keyword initial_world]
  obtain entry w' where
    run: "process_keyword demo_env default_options awkward_keyword initial_world = (Inr entry, w')"
    by blast
  have a: "agent_run demo_env (length (agent_tasks initial_world)) (simple_task awkward_keyword 2) =
             Inr text_result"
    and x: "extract_text text_result = Inr ''final answer''"
    by (simp_all add: demo_env_def text_result_def extract_text_def hasattr_def)
  have l: "False \<or> lower ''english'' \<noteq> ''english'' \<Longrightarrow>
             llm_invoke demo_env (length (llm_prompts initial_world))
               (blog_prompt 12 (lower ''english'') ''final answer'') = Inr ''# A blog article''"
    by (simp add: demo_env_def)
  have o: "open_error demo_env (case None of
                             None \<Rightarrow> file_name awkward_keyword (clock demo_env (ticks initial_world)) ''md''
                           | Some p \<Rightarrow> if p = [] then file_name awkward_keyword (clock demo_env (ticks initial_world)) ''md'' else p) = None"
    by (simp add: demo_env_def)
  from simple_ok [where blog = False and lang = "''english''" and out_file = None, OF a x l o]
  obtain p w'' where
    srun: "simple_search_and_summarize demo_env awkward_keyword 2 None ''english'' False
             initial_world = (Inr p, w'')"
    by auto
  have n1: "map (\<lambda>c. if c = CHR '' '' \<or> c = CHR ''/'' \<or> c = CHR 0x5C then CHR ''_'' else c)
              awkward_keyword @ ''_'' @ strftime_compact (demo_clock 2) @ ''.'' @ ''md'' =
            ''a_b_c_d_20240517_103002.md''"
    by code_simp
  have n2: "path_join (output_dir default_options)
              (file_name awkward_keyword (clock demo_env (Suc (Suc (ticks initial_world))))
                 (if output_format default_options = ''json'' then ''json''
                  else if output_format default_options = ''markdown'' then ''md'' else ''txt'')) =
            ''./a_b_c_d_20240517_103002.md''"
    by code_simp
  have n3: "file_name awkward_keyword (clock demo_env (ticks initial_world)) ''md'' =
            ''a_b_c_d_20240517_103000.md''"
    by code_simp
  from derived_file_name [of awkward_keyword "demo_clock 2" "''md''" demo_env default_options
                             initial_world entry w' 2 "''english''" False p w'']
  show ?thesis using v run srun n1 n2 n3 by auto
qed

section \<open>Two keywords\<close>

lemma two_keywords_run:
  assumes agent: "\<forall>n task. \<exists>r t. agent_run e n task = Inr r \<and> extract_text r = Inr t"
    and llm: "\<forall>n p. \<exists>s. llm_invoke e n p = Inr s"
    and mk: "\<forall>d. makedirs_error e d = None"
    and op: "\<forall>p. open_error e p = None"
  shows "\<exists>wA wB cA cB.
           process_keyword e (resolve_options options) ''A'' w =
             (Inr \<lparr>output_file = path_join (output_dir (resolve_options options))
                      (file_name ''A'' (clock e (Suc (Suc (ticks w))))
                         (extension (output_format (resolve_options options)))),
                   duration_seconds = total_seconds (clock e (Suc (ticks w))) (clock e (ticks w))\<rparr>,
              wA) \<and>
           files wA = (files w)(path_join (output_dir (resolve_options options))
                      (file_name ''A'' (clock e (Suc (Suc (ticks w))))
                         (extension (output_format (resolve_options options)))) \<mapsto> cA) \<and>
           files wB = (files wA)(path_join (output_dir (resolve_options options))
                      (file_name ''B'' (clock e (Suc (Suc (ticks wA))))
                         (extension (output_format (resolve_options options)))) \<mapsto> cB) \<and>
           search_and_summarize e (Many [''A'', ''B'']) options w =
             (Inr [''A'' \<mapsto>
                     \<lparr>output_file = path_join (output_dir (resolve_options options))
                        (file_name ''A'' (clock e (Suc (Suc (ticks w))))
                           (extension (output_format (resolve_options options)))),
                      duration_seconds =
                        total_seconds (clock e (Suc (ticks w))) (clock e (ticks w))\<rparr>,
                   ''B'' \<mapsto>
                     \<lparr>output_file = path_join (output_dir (resolve_options options))
                        (file_name ''B'' (clock e (Suc (Suc (ticks wA))))
                           (extension (output_format (resolve_options options)))),
                      duration_seconds =
                        total_seconds (clock e (Suc (ticks wA))) (clock e (ticks wA))\<rparr>],
              wB)"
proof -
  let ?opts = "resolve_options options"
  let ?pA = "path_join (output_dir ?opts)
               (file_name ''A'' (clock e (Suc (Suc (ticks w)))) (extension (output_format ?opts)))"
  let ?a = "\<lparr>output_file = ?pA,
            duration_seconds = total_seconds (clock e (Suc (ticks w))) (clock e (ticks w))\<rparr>"
  from process_keyword_total [OF agent llm mk op, of ?opts "''A''" w]
  obtain wA cA where pA: "process_keyword e ?opts ''A'' w = (Inr ?a, wA)"
    and fA: "files wA = (files w)(?pA \<mapsto> cA)"
    by blast
  let ?pB = "path_join (output_dir ?opts)
               (file_name ''B'' (clock e (Suc (Suc (ticks wA)))) (extension (output_format ?opts)))"
  let ?b = "\<lparr>output_file = ?pB,
            duration_seconds = total_seconds (clock e (Suc (ticks wA))) (clock e (ticks wA))\<rparr>"
  from process_keyword_total [OF agent llm mk op, of ?opts "''B''" wA]
  obtain wB cB where pB: "process_keyword e ?opts ''B'' wA = (Inr ?b, wB)"
    and fB: "files wB = (files wA)(?pB \<mapsto> cB)"
    by blast
  have run: "search_and_summarize e (Many [''A'', ''B'']) options w =
               (Inr [''A'' \<mapsto> ?a, ''B'' \<mapsto> ?b], wB)"
    by (simp add: search_and_summarize_def Let_def pA pB)
  show ?thesis
    apply (rule exI [of _ wA])
    apply (rule exI [of _ wB])
    apply (rule exI [of _ cA])
    apply (rule exI [of _ cB])
    using pA fA fB run by simp
qed

text \<open>
  Claim C8, as the code has it. Let the collaborators succeed (the agent returns a result
  whose text can be extracted, the LLM answers, directories and files can be created).
  Then processing the keywords "A" and "B" returns a mapping with exactly the two entries
  "A" and "B"; their output files are different paths, both exist afterwards, and the file
  of "A" is as processing "A" left it. The duration of an entry is the difference, in
  seconds, between the two wall-clock readings taken around its agent call: it is
  non-negative when the second reading is not earlier than the first, and negative when
  the wall clock stepped back in between.
\<close>

theorem two_keywords:
  assumes agent: "\<forall>n task. \<exists>r t. agent_run e n task = Inr r \<and> extract_text r = Inr t"
    and llm: "\<forall>n p. \<exists>s. llm_invoke e n p = Inr s"
    and mk: "\<forall>d. makedirs_error e d = None"
    and op: "\<forall>p. open_error e p = None"
  shows "\<exists>results w' a b wA.
           search_and_summarize e (Many [''A'', ''B'']) options w = (Inr results, w') \<and>
           wA = snd (process_keyword e (resolve_options options) ''A'' w) \<and>
           dom results = {''A'', ''B''} \<and>
           results ''A'' = Some a \<and> results ''B'' = Some b \<and>
           output_file a \<noteq> output_file b \<and>
           files w' (output_file a) \<noteq> None \<and>
           files w' (output_file b) \<noteq> None \<and>
           files w' (output_file a) = files wA (output_file a) \<and>
           duration_seconds a = total_seconds (clock e (Suc (ticks w))) (clock e (ticks w)) \<and>
           duration_seconds b = total_seconds (clock e (Suc (ticks wA))) (clock e (ticks wA)) \<and>
           (microseconds_of (clock e (ticks w)) \<le> microseconds_of (clock e (Suc (ticks w))) \<longrightarrow>
              0 \<le> duration_seconds a) \<and>
           (microseconds_of (clock e (ticks wA)) \<le> microseconds_of (clock e (Suc (ticks wA))) \<longrightarrow>
              0 \<le> duration_seconds b) \<and>
           (microseconds_of (clock e (Suc (ticks w))) < microseconds_of (clock e (ticks w)) \<longrightarrow>
              duration_seconds a < 0)"
proof -
  let ?opts = "resolve_options options"
  from two_keywords_run [OF agent llm mk op, of options w]
  obtain wA wB cA cB where
    pA: "process_keyword e ?opts ''A'' w =
             (Inr \<lparr>output_file = path_join (output_dir ?opts)
                      (file_name ''A'' (clock e (Suc (Suc (ticks w))))
                         (extension (output_format ?opts))),
                   duration_seconds = total_seconds (clock e (Suc (ticks w))) (clock e (ticks w))\<rparr>,
              wA)"
    and fA: "files wA = (files w)(path_join (output_dir ?opts)
                      (file_name ''A'' (clock e (Suc (Suc (ticks w))))
                         (extension (output_format ?opts))) \<mapsto> cA)"
    and fB: "files wB = (files wA)(path_join (output_dir ?opts)
                      (file_name ''B'' (clock e (Suc (Suc (ticks wA))))
                         (extension (output_format ?opts))) \<mapsto> cB)"
    and run: "search_and_summarize e (Many [''A'', ''B'']) options w =
             (Inr [''A'' \<mapsto>
                     \<lparr>output_file = path_join (output_dir ?opts)
                        (file_name ''A'' (clock e (Suc (Suc (ticks w))))
                           (extension (output_format ?opts))),
                      duration_seconds =
                        total_seconds (clock e (Suc (ticks w))) (clock e (ticks w))\<rparr>,
                   ''B'' \<mapsto>
                     \<lparr>output_file = path_join (output_dir ?opts)
                        (file_name ''B'' (clock e (Suc (Suc (ticks wA))))
                           (extension (output_format ?opts))),
                      duration_seconds =
                        total_seconds (clock e (Suc (ticks wA))) (clock e (ticks wA))\<rparr>],
              wB)"
    by blast
  let ?pA = "path_join (output_dir ?opts)
               (file_name ''A'' (clock e (Suc (Suc (ticks w)))) (extension (output_format ?opts)))"
  let ?a = "\<lparr>output_file = ?pA,
            duration_seconds = total_seconds (clock e (Suc (ticks w))) (clock e (ticks w))\<rparr>"
  let ?pB = "path_join (output_dir ?opts)
               (file_name ''B'' (clock e (Suc (Suc (ticks wA)))) (extension (output_format ?opts)))"
  let ?b = "\<lparr>output_file = ?pB,
            duration_seconds = total_seconds (clock e (Suc (ticks wA))) (clock e (ticks wA))\<rparr>"
  have ne: "?pA \<noteq> ?pB" by (rule paths_differ)
  have wA: "wA = snd (process_keyword e ?opts ''A'' w)" using pA by simp
  have f1: "files wB ?pA = Some cA" using fA fB ne by simp
  have f2: "files wB ?pB = Some cB" using fB by simp
  have f3: "files wA ?pA = Some cA" using fA by simp
  have dm: "dom [''A'' \<mapsto> ?a, ''B'' \<mapsto> ?b] = {''A'', ''B''}" by auto
  have neg: "microseconds_of (clock e (Suc (ticks w))) < microseconds_of (clock e (ticks w)) \<longrightarrow>
              duration_seconds ?a < 0"
    by (simp add: total_seconds_def)
  show ?thesis
    apply (rule exI [of _ "[''A'' \<mapsto> ?a, ''B'' \<mapsto> ?b]"])
    apply (rule exI [of _ wB])
    apply (rule exI [of _ ?a])
    apply (rule exI [of _ ?b])
    apply (rule exI [of _ wA])
    using run dm ne f1 f2 f3 wA neg by (simp add: total_seconds_nonneg)
qed

lemma demo_succeeds:
  "\<forall>n task. \<exists>r t. agent_run demo_env n task = Inr r \<and> extract_text r = Inr t"
  "\<forall>n p. \<exists>s. llm_invoke demo_env n p = Inr s"
  "\<forall>d. makedirs_error demo_env d = None"
  "\<forall>p. open_error demo_env p = None"
  by (simp_all add: demo_env_def text_result_def extract_text_def hasattr_def)

lemma dst_succeeds:
  "\<forall>n task. \<exists>r t. agent_run dst_env n task = Inr r \<and> extract_text r = Inr t"
  "\<forall>n p. \<exists>s. llm_invoke dst_env n p = Inr s"
  "\<forall>d. makedirs_error dst_env d = None"
  "\<forall>p. open_error dst_env p = None"
  by (simp_all add: dst_env_def demo_env_def text_result_def extract_text_def hasattr_def)

lemma dst_duration: "total_seconds (dst_clock 1) (dst_clock 0) = - 3598"
  by (simp add: total_seconds_def microseconds_of_def ordinal_def dst_clock_def)

text \<open>
  The claim fails when the wall clock steps back during the agent call for "A": every
  reading is a valid datetime, the run succeeds, and the duration recorded for "A" is
  negative.
\<close>

theorem clock_steps_back_counterexample:
  "valid_datetime (clock dst_env 0) \<and> valid_datetime (clock dst_env 1) \<and>
   duration_of (fst (search_and_summarize dst_env (Many [''A'', ''B'']) None initial_world)) ''A'' =
     Some (- 3598) \<and>
   \<not> (0::rat) \<le> - 3598"
proof -
  have v: "valid_datetime (clock dst_env 0)" "valid_datetime (clock dst_env 1)"
    by (simp_all add: dst_env_def dst_clock_def valid_datetime_def days_in_month_def)
  from two_keywords_run [OF dst_succeeds, of None initial_world]
  have "duration_of (fst (search_and_summarize dst_env (Many [''A'', ''B'']) None initial_world)) ''A'' =
     Some (total_seconds (clock dst_env (Suc (ticks initial_world))) (clock dst_env (ticks initial_world)))"
    by (auto simp: duration_of_def)
  also have "total_seconds (clock dst_env (Suc (ticks initial_world))) (clock dst_env (ticks initial_world)) = - 3598"
    using dst_duration by (simp add: dst_env_def initial_world_def)
  finally show ?thesis using v by simp
qed

theorem two_keywords_witness:
  "(\<forall>n task. \<exists>r t. agent_run demo_env n task = Inr r \<and> extract_text r = Inr t) \<and>
   (\<forall>n p. \<exists>s. llm_invoke demo_env n p = Inr s) \<and>
   (\<forall>d. makedirs_error demo_env d = None) \<and>
   (\<forall>p. open_error demo_env p = None) \<and>
   microseconds_of (clock demo_env (ticks initial_world)) \<le>
     microseconds_of (clock demo_env (Suc (ticks initial_world))) \<and>
   (\<exists>results w' a b.
      search_and_summarize demo_env (Many [''A'', ''B'']) None initial_world = (Inr results, w') \<and>
      dom results = {''A'', ''B''} \<and>
      results ''A'' = Some a \<and> results ''B'' = Some b \<and>
      output_file a \<noteq> output_file b \<and>
      files w' (output_file a) \<noteq> None \<and>
      files w' (output_file b) \<noteq> None \<and>
      duration_seconds a = 1 \<and> 0 \<le> duration_seconds a \<and> 0 \<le> duration_seconds b)"
proof -
  have m: "\<And>i. microseconds_of (clock demo_env i) \<le> microseconds_of (clock demo_env (Suc i))"
    by (auto simp add: demo_env_def demo_clock_def microseconds_of_def ordinal_def)
  have d: "total_seconds (clock demo_env (Suc (ticks initial_world))) (clock demo_env (ticks initial_world)) = 1"
    by (simp add: total_seconds_def microseconds_of_def ordinal_def demo_env_def demo_clock_def
                  initial_world_def)
  from two_keywords [OF demo_succeeds, of None initial_world]
  show ?thesis using demo_succeeds m d by (auto simp: total_seconds_nonneg)
qed

end
